theory Spec2Isabelle
  imports Main
begin

section \<open>The content loader of static/js/script.js\<close>

text \<open>
  The script keeps its state in module-level variables (\<open>currentLanguage\<close>,
  \<open>currentPage\<close>, \<open>navData\<close>, \<open>cache\<close>) and acts on the browser: it fetches
  resources, writes the document, pushes history entries, opens tabs, writes
  \<open>localStorage\<close> and logs to the console. The model passes one record holding both
  the variables and the observable part of the browser through every function. What the
  network and the markdown library answer is a parameter (\<open>env\<close>).

  JavaScript values: a variable that may hold \<open>null\<close> or \<open>undefined\<close> is a
  \<open>string option\<close> with \<open>None\<close> for both; strings are \<open>string\<close>. All the
  string operations of the script (\<open>startsWith\<close>, \<open>replace\<close>, \<open>split\<close>) are applied
  with ASCII patterns, so they agree on bytes and on UTF-16 code units.
\<close>

subsection \<open>JavaScript helpers\<close>

text \<open>Truthiness of a value that is a string, \<open>null\<close> or \<open>undefined\<close>.\<close>

definition truthy :: "string option \<Rightarrow> bool" where
  "truthy v = (case v of None \<Rightarrow> False | Some x \<Rightarrow> x \<noteq> [])"

text \<open>\<open>a || b\<close> where \<open>b\<close> is a string constant.\<close>

definition or_else :: "string option \<Rightarrow> string \<Rightarrow> string" where
  "or_else v d = (case v of None \<Rightarrow> d | Some x \<Rightarrow> if x = [] then d else x)"

text \<open>Interpolation into a template literal: \<open>null\<close> prints as \<open>null\<close>.\<close>

definition str :: "string option \<Rightarrow> string" where
  "str v = (case v of None \<Rightarrow> ''null'' | Some x \<Rightarrow> x)"

definition startsWith :: "string \<Rightarrow> string \<Rightarrow> bool" where
  "startsWith x p = (take (length p) x = p)"

text \<open>\<open>x.replace(pat, rep)\<close> with a string pattern: the first occurrence only.\<close>

fun replace :: "string \<Rightarrow> string \<Rightarrow> string \<Rightarrow> string" where
  "replace pat rep [] = (if pat = [] then rep else [])"
| "replace pat rep (c # cs) =
     (if startsWith (c # cs) pat then rep @ drop (length pat) (c # cs)
      else c # replace pat rep cs)"

text \<open>\<open>x.split('.').pop()\<close>: what follows the last dot, or all of \<open>x\<close> without a dot.\<close>

definition split_pop :: "string \<Rightarrow> string" where
  "split_pop x = rev (takeWhile (\<lambda>c. c \<noteq> CHR ''.'') (rev x))"

subsection \<open>Configuration\<close>

definition defaultLanguage :: string where
  "defaultLanguage = ''si''"

definition defaultPage :: string where
  "defaultPage = ''home.html''"

definition supportedLanguages :: "string list" where
  "supportedLanguages = [''si'', ''en'', ''ta'']"

subsection \<open>Navigation documents and the elements built from them\<close>

text \<open>
  A navigation document is the JSON read from \<open>static/lang/{language}.json\<close>:
  \<open>{ name, payment, nav: [ { text, link?, sub_menu?: [...] } ] }\<close>. A field that is
  absent is \<open>None\<close>. The script tests \<open>nav\<close> and \<open>sub_menu\<close> with
  \<open>x && Array.isArray(x)\<close>, which holds exactly for arrays, of any length: \<open>None\<close>
  in these two fields stands for a field that is absent or holds no array. Texts and
  links are strings, as in the schema.
\<close>

datatype nav_item =
  NavItem (item_text: "string option") (item_link: "string option")
          (sub_menu: "nav_item list option")

record nav_doc =
  doc_name :: "string option"
  doc_payment :: "string option"
  doc_nav :: "nav_item list option"

text \<open>
  The two click listeners the script attaches to a link: \<open>closeMobileNav\<close> itself (on
  an external link), or the arrow function that prevents the default action, closes the
  mobile menu and, if the link is truthy, calls \<open>loadContent(link, currentLanguage)\<close>.
\<close>

datatype listener = CloseMobileNav | LoadLink "string option"

text \<open>
  A node of the document: a text node, markup assigned through \<open>innerHTML\<close> (kept as
  the string that was assigned), or an element with its tag, class list, the
  attributes set by the script in the order it sets them, its click listeners and its
  children.
\<close>

datatype node =
  TextNode string
| Markup string
| Element (tagName: string) (classList: "string list") (attributes: "(string \<times> string) list")
          (listeners: "listener list") (childNodes: "node list")

text \<open>Assigning \<open>textContent\<close> and \<open>innerHTML\<close>: the children they leave.\<close>

definition textContent :: "string option \<Rightarrow> node list" where
  "textContent t = (case t of None \<Rightarrow> [] | Some x \<Rightarrow> if x = [] then [] else [TextNode x])"

definition innerHTML :: "string \<Rightarrow> node list" where
  "innerHTML h = (if h = [] then [] else [Markup h])"

definition isExternalURL :: "string option \<Rightarrow> bool" where
  "isExternalURL url =
     (case url of None \<Rightarrow> False
      | Some u \<Rightarrow> u \<noteq> [] \<and> (startsWith u ''http://'' \<or> startsWith u ''https://''))"

definition createDropdownToggle :: "string option \<Rightarrow> node" where
  "createDropdownToggle t =
     Element ''a'' [''nav-link'', ''dropdown-toggle'']
       [(''href'', ''#''), (''role'', ''button''), (''data-bs-toggle'', ''dropdown''),
        (''aria-expanded'', ''false'')]
       [] (textContent t)"

definition createDropdownLink :: "string option \<Rightarrow> string option \<Rightarrow> node" where
  "createDropdownLink t l =
     (if isExternalURL l
      then Element ''a'' [''dropdown-item'']
             [(''href'', str l), (''target'', ''_blank''), (''rel'', ''noopener noreferrer'')]
             [CloseMobileNav] (textContent t)
      else Element ''a'' [''dropdown-item''] [(''href'', ''#'')] [LoadLink l] (textContent t))"

definition createNavLink :: "string option \<Rightarrow> string option \<Rightarrow> node" where
  "createNavLink t l =
     (if isExternalURL l
      then Element ''a'' [''nav-link'']
             [(''href'', str l), (''target'', ''_blank''), (''rel'', ''noopener noreferrer'')]
             [CloseMobileNav] (textContent t)
      else Element ''a'' [''nav-link''] [(''href'', ''#'')] [LoadLink l] (textContent t))"

text \<open>
  \<open>createDropdownMenu\<close> builds one \<open>li\<close> for each item, in order, and calls itself on
  the \<open>sub_menu\<close> of an item that has one. \<open>menuItem\<close> is the body of its
  \<open>forEach\<close>.
\<close>

fun createDropdownMenu :: "nav_item list \<Rightarrow> node"
  and menuItem :: "nav_item \<Rightarrow> node" where
  "createDropdownMenu items =
     Element ''ul'' [''dropdown-menu''] [] [] (map menuItem items)"
| "menuItem (NavItem t l (Some subs)) =
     Element ''li'' [''dropdown-submenu''] [] []
       [Element ''a'' [''dropdown-item'', ''has-submenu''] [(''href'', ''#'')] [] (textContent t),
        createDropdownMenu subs]"
| "menuItem (NavItem t l None) =
     Element ''li'' [] [] [] [createDropdownLink t l]"

definition createNavItem :: "nav_item \<Rightarrow> node" where
  "createNavItem item =
     (case sub_menu item of
        Some subs \<Rightarrow>
          Element ''li'' [''nav-item'', ''dropdown''] [] []
            [createDropdownToggle (item_text item), createDropdownMenu subs]
      | None \<Rightarrow>
          Element ''li'' [''nav-item''] [] [] [createNavLink (item_text item) (item_link item)])"

subsection \<open>The state and the environment\<close>

datatype level = Log | Warn | Error

record state =
  currentLanguage :: "string option"
  currentPage :: "string option"
  navData :: nav_doc
  cache_nav :: "string \<rightharpoonup> nav_doc"
  cache_pages :: "string \<rightharpoonup> string"
  storedLanguage :: "string option"
  document :: "string \<rightharpoonup> node list"
  languageUI :: "string option"
  history :: "(string option \<times> string option \<times> string) list"
  opened :: "(string \<times> string \<times> string) list"
  fetched :: "string list"
  console :: "(level \<times> string) list"

text \<open>
  \<^item> \<open>cache_nav s k\<close> and \<open>cache_pages s k\<close> are what \<open>cache.nav[k]\<close> and
    \<open>cache.pages[k]\<close> evaluate to (\<open>None\<close> for \<open>undefined\<close>).
  \<^item> \<open>storedLanguage\<close> is the \<open>localStorage\<close> item \<open>language\<close>.
  \<^item> \<open>document s i\<close> is the list of children of the element with id \<open>i\<close>, and
    \<open>None\<close> when \<open>getElementById(i)\<close> is \<open>null\<close>. The script addresses elements by id
    only; the tree above them is not part of the model.
  \<^item> \<open>languageUI\<close> is the language that \<open>updateLanguageUI\<close> last decorated the
    language selector for (its label in \<open>#currentLang\<close>, its item marked active).
  \<^item> \<open>history\<close> lists the calls of \<open>pushState\<close> (the \<open>page\<close> and \<open>lang\<close> of the
    state object, and the URL), \<open>opened\<close> the calls of \<open>window.open\<close>, \<open>fetched\<close>
    the calls of \<open>fetch\<close>, \<open>console\<close> the first argument of each console call, all
    oldest first.
  The smooth scroll to the top after a render and the mobile menu are left out.
\<close>

record response =
  ok :: bool
  body :: string

text \<open>
  \<open>fetch env url\<close> is the response to a request, \<open>None\<close> when the promise rejects
  (also when reading the body rejects). \<open>json env b\<close> is the navigation document that
  \<open>response.json()\<close> reads from the body \<open>b\<close>, \<open>None\<close> when it rejects.
  \<open>marked env\<close> is \<open>None\<close> when the global \<open>marked\<close> is undefined; otherwise
  it is \<open>marked.parse\<close>, which yields \<open>None\<close> where it throws. The answers
  depend on the URL and on the text only, not on the moment of the call.
  \<open>page_after env\<close> matters where a navigation document and a page are awaited
  together (\<open>Promise.all\<close> in \<open>setLanguage\<close>): it is the number of answers to
  navigation requests that arrive before the answer to the page request does.
\<close>

record env =
  fetch :: "string \<Rightarrow> response option"
  json :: "string \<Rightarrow> nav_doc option"
  marked :: "(string \<Rightarrow> string option) option"
  page_after :: nat

datatype error = FetchRejected | JsonRejected | MarkedThrew | Thrown string

definition log :: "level \<Rightarrow> string \<Rightarrow> state \<Rightarrow> state" where
  "log l m s = s\<lparr>console := console s @ [(l, m)]\<rparr>"

subsection \<open>Language and page resolution\<close>

definition validateLanguage :: "string option \<Rightarrow> string option" where
  "validateLanguage lang =
     (case lang of None \<Rightarrow> None
      | Some l \<Rightarrow> if l \<in> set supportedLanguages then Some l else None)"

text \<open>
  \<open>langParam\<close> and \<open>pageParam\<close> are \<open>urlParams.get('lang')\<close> and
  \<open>urlParams.get('page')\<close> of the location the page was opened with.
\<close>

definition initializeFromURL :: "string option \<Rightarrow> string option \<Rightarrow> state \<Rightarrow> state" where
  "initializeFromURL langParam pageParam s =
     (let lang = or_else (validateLanguage langParam)
                   (or_else (validateLanguage (storedLanguage s)) defaultLanguage)
      in s\<lparr>currentLanguage := Some lang,
           currentPage := Some (or_else pageParam defaultPage),
           storedLanguage := Some lang\<rparr>)"

subsection \<open>Rendering\<close>

definition showError_html :: "string \<Rightarrow> string" where
  \<open>showError_html message =
     ''\<newline>      <div class="alert alert-danger" role="alert">'' @
     ''\<newline>        <h4 class="alert-heading">Error</h4>'' @
     ''\<newline>        <p>'' @ message @ ''</p>'' @
     ''\<newline>        <hr>'' @
     ''\<newline>        <p class="mb-0">Please try refreshing the page or contact support if the problem persists.</p>'' @
     ''\<newline>      </div>'' @
     ''\<newline>    ''\<close>

definition showError :: "string \<Rightarrow> state \<Rightarrow> state" where
  "showError message s =
     (let s1 = log Error message s
      in case document s1 ''content'' of
           None \<Rightarrow> s1
         | Some _ \<Rightarrow> s1\<lparr>document := (document s1)(''content'' \<mapsto> innerHTML (showError_html message))\<rparr>)"

definition renderContent :: "string \<Rightarrow> state \<Rightarrow> state" where
  "renderContent content s =
     (case document s ''content'' of
        None \<Rightarrow> s
      | Some _ \<Rightarrow> s\<lparr>document := (document s)(''content'' \<mapsto> innerHTML content)\<rparr>)"

definition updateURL :: "string option \<Rightarrow> string option \<Rightarrow> state \<Rightarrow> state" where
  "updateURL page lang s =
     s\<lparr>history := history s @ [(page, lang, ''?page='' @ str page @ ''&lang='' @ str lang)]\<rparr>"

definition updateLanguageUI :: "state \<Rightarrow> state" where
  "updateLanguageUI s = s\<lparr>languageUI := currentLanguage s\<rparr>"

definition updateTextContent :: "string \<Rightarrow> string option \<Rightarrow> state \<Rightarrow> state" where
  "updateTextContent elementId t s =
     (case document s elementId of
        None \<Rightarrow> s
      | Some _ \<Rightarrow> if truthy t then s\<lparr>document := (document s)(elementId \<mapsto> textContent t)\<rparr> else s)"

definition navContainers :: "string list" where
  "navContainers = [''navItem1'', ''navItem2'', ''footerNav'']"

definition clearContainer :: "string \<Rightarrow> state \<Rightarrow> state" where
  "clearContainer i s =
     (case document s i of
        None \<Rightarrow> s
      | Some _ \<Rightarrow> s\<lparr>document := (document s)(i \<mapsto> innerHTML [])\<rparr>)"

definition appendChild :: "string \<Rightarrow> node \<Rightarrow> state \<Rightarrow> state" where
  "appendChild i n s =
     (case document s i of
        None \<Rightarrow> s
      | Some ns \<Rightarrow> s\<lparr>document := (document s)(i \<mapsto> ns @ [n])\<rparr>)"

definition renderNavigation :: "nav_doc \<Rightarrow> state \<Rightarrow> state" where
  "renderNavigation data s =
     (let s1 = updateTextContent ''councilName'' (doc_name data) s;
          s2 = updateTextContent ''PaymentName'' (doc_payment data) s1;
          s3 = fold clearContainer navContainers s2
      in case doc_nav data of
           None \<Rightarrow> s3
         | Some items \<Rightarrow>
             fold (\<lambda>containerId. fold (\<lambda>item. appendChild containerId (createNavItem item)) items)
               navContainers s3)"

subsection \<open>Loading the navigation\<close>

text \<open>
  The body of the \<open>try\<close> block of \<open>loadNavigation\<close>: the error that was thrown, if
  any, and the state at that moment.
\<close>

definition loadNavigation_try :: "env \<Rightarrow> string option \<Rightarrow> state \<Rightarrow> error option \<times> state" where
  "loadNavigation_try env lang s =
     (case cache_nav s (str lang) of
        Some cached \<Rightarrow> (None, renderNavigation cached (s\<lparr>navData := cached\<rparr>))
      | None \<Rightarrow>
          (let url = ''static/lang/'' @ str lang @ ''.json'';
               s1 = s\<lparr>fetched := fetched s @ [url]\<rparr>
           in case fetch env url of
                None \<Rightarrow> (Some FetchRejected, s1)
              | Some r \<Rightarrow>
                  if \<not> ok r
                  then (Some (Thrown (''Navigation file not found for language: '' @ str lang)), s1)
                  else (case json env (body r) of
                          None \<Rightarrow> (Some JsonRejected, s1)
                        | Some d \<Rightarrow>
                            (None, renderNavigation d
                               (s1\<lparr>navData := d, cache_nav := (cache_nav s1)(str lang \<mapsto> d)\<rparr>)))))"

text \<open>
  \<open>loadNavigation(lang = currentLanguage)\<close>. Every call in the script passes an
  argument that is a string or \<open>null\<close> (\<open>currentLanguage\<close>, \<open>newLang\<close>, the default
  language), and the default value of the parameter replaces \<open>undefined\<close> only: \<open>lang\<close>
  is the argument, \<open>None\<close> for \<open>null\<close>, which is looked up and requested as
  \<open>null\<close>. The \<open>catch\<close> block calls the function again, on the default language,
  when the language that failed is another one.
\<close>

function loadNavigation :: "env \<Rightarrow> string option \<Rightarrow> state \<Rightarrow> state" where
  "loadNavigation env lang s =
     (case loadNavigation_try env lang s of
        (None, s') \<Rightarrow> s'
      | (Some e, s') \<Rightarrow>
          (let s1 = log Error (''Failed to load navigation for '' @ str lang @ '':'') s'
           in if lang \<noteq> Some defaultLanguage
              then loadNavigation env (Some defaultLanguage)
                     (log Warn (''Falling back to '' @ defaultLanguage) s1)
              else s1))"
  by pat_completeness auto
termination
  by (relation "measure (\<lambda>(env, lang, s). if lang = Some defaultLanguage then 0 else 1)") auto

declare loadNavigation.simps [simp del]

subsection \<open>Loading a page\<close>

text \<open>The value of the local variable \<open>fileName\<close> for a page name.\<close>

definition fileName :: "string \<Rightarrow> string" where
  "fileName pageName =
     (if replace ''.html'' [] pageName \<in> set [''contact'', ''about'']
      then replace ''.html'' [] pageName @ ''.md'' else pageName)"

text \<open>
  The body of the \<open>try\<close> block of \<open>loadContent\<close>, with \<open>pageName\<close> and \<open>lang\<close>
  as they are after the defaults have been applied: the error that was thrown, if any,
  and the state at that moment.
\<close>

definition loadContent_try :: "env \<Rightarrow> string \<Rightarrow> string option \<Rightarrow> state \<Rightarrow> error option \<times> state" where
  "loadContent_try env pageName lang s =
     (let cacheKey = str lang @ ''-'' @ pageName
      in case (if truthy (cache_pages s cacheKey) then cache_pages s cacheKey else None) of
           Some cached \<Rightarrow>
             (None, (updateURL (Some pageName) lang (renderContent cached s))
                    \<lparr>currentPage := Some pageName\<rparr>)
         | None \<Rightarrow>
           (let filePath = ''pages/'' @ str lang @ ''/'' @ fileName pageName;
                s1 = s\<lparr>fetched := fetched s @ [filePath]\<rparr>
            in case fetch env filePath of
                 None \<Rightarrow> (Some FetchRejected, s1)
               | Some r \<Rightarrow>
                   if \<not> ok r then (Some (Thrown (''Page not found: '' @ filePath)), s1)
                   else
                     (let content = body r;
                          extension = split_pop (fileName pageName);
                          processed =
                            (if extension = ''md''
                             then (case marked env of
                                     Some parse \<Rightarrow> parse content
                                   | None \<Rightarrow> Some content)
                             else Some content)
                      in case processed of
                           None \<Rightarrow> (Some MarkedThrew, s1)
                         | Some processedContent \<Rightarrow>
                             (None,
                              (updateURL (Some pageName) lang
                                 (renderContent processedContent
                                    (s1\<lparr>cache_pages := (cache_pages s1)(cacheKey \<mapsto> processedContent)\<rparr>)))
                              \<lparr>currentPage := Some pageName\<rparr>))))"

definition loadContent :: "env \<Rightarrow> string option \<Rightarrow> string option \<Rightarrow> state \<Rightarrow> state" where
  "loadContent env pageName0 lang0 s =
     (let lang = (if truthy lang0 then lang0 else currentLanguage s);
          pageName = or_else pageName0 defaultPage
      in if isExternalURL (Some pageName)
         then s\<lparr>opened := opened s @ [(pageName, ''_blank'', ''noopener,noreferrer'')]\<rparr>
         else
           (case loadContent_try env pageName lang s of
              (None, s') \<Rightarrow> s'
            | (Some e, s') \<Rightarrow>
                showError (''Failed to load page: '' @ pageName)
                  (log Error (''Failed to load content: '' @ pageName) s')))"

subsection \<open>Initialisation, language switch, history\<close>

text \<open>
  \<open>loadNavigation\<close> and \<open>loadContent\<close> catch what their bodies throw, so the
  \<open>catch\<close> blocks of \<open>initializeApp\<close> and \<open>setLanguage\<close> are never entered.
  \<open>initializeApp\<close> awaits the navigation before it calls \<open>loadContent\<close>.
\<close>

definition initializeApp :: "env \<Rightarrow> state \<Rightarrow> state" where
  "initializeApp env s =
     (let s1 = loadNavigation env (currentLanguage s) s;
          s2 = loadContent env (currentPage s1) (currentLanguage s1) s1
      in updateLanguageUI s2)"

text \<open>
  \<open>setLanguage\<close> calls \<open>loadNavigation\<close> and \<open>loadContent\<close> one after the other and
  awaits both together. Each of the two runs in the turn of the call until its request is
  sent (or to its end, when it needs no request), and goes on in the turn in which the
  answer arrives. The functions below are these turns. The result of a start or of an
  arrival says what is still awaited: for the navigation the language whose document has
  been requested, for the page the page name and the language.
\<close>

definition loadNavigation_start :: "env \<Rightarrow> string option \<Rightarrow> state \<Rightarrow> string option option \<times> state" where
  "loadNavigation_start env lang s =
     (case cache_nav s (str lang) of
        Some cached \<Rightarrow> (None, renderNavigation cached (s\<lparr>navData := cached\<rparr>))
      | None \<Rightarrow>
          (Some lang, s\<lparr>fetched := fetched s @ [''static/lang/'' @ str lang @ ''.json'']\<rparr>))"

text \<open>
  The answer to the request for the document of \<open>lang\<close> arrives. On a failure the
  \<open>catch\<close> block logs it and, for another language than the default, starts the load
  of the default language in the same turn.
\<close>

definition loadNavigation_arrival :: "env \<Rightarrow> string option \<Rightarrow> state \<Rightarrow> string option option \<times> state" where
  "loadNavigation_arrival env lang s =
     (case (case fetch env (''static/lang/'' @ str lang @ ''.json'') of
              None \<Rightarrow> None
            | Some r \<Rightarrow> if \<not> ok r then None else json env (body r)) of
        Some d \<Rightarrow>
          (None, renderNavigation d (s\<lparr>navData := d, cache_nav := (cache_nav s)(str lang \<mapsto> d)\<rparr>))
      | None \<Rightarrow>
          (let s1 = log Error (''Failed to load navigation for '' @ str lang @ '':'') s
           in if lang \<noteq> Some defaultLanguage
              then loadNavigation_start env (Some defaultLanguage)
                     (log Warn (''Falling back to '' @ defaultLanguage) s1)
              else (None, s1)))"

text \<open>One turn of a navigation load, if an answer is awaited.\<close>

definition loadNavigation_turn :: "env \<Rightarrow> string option option \<times> state \<Rightarrow> string option option \<times> state" where
  "loadNavigation_turn env ps =
     (case fst ps of None \<Rightarrow> ps | Some lang \<Rightarrow> loadNavigation_arrival env lang (snd ps))"

definition loadContent_start :: "env \<Rightarrow> string option \<Rightarrow> string option \<Rightarrow> state \<Rightarrow> (string \<times> string option) option \<times> state" where
  "loadContent_start env pageName0 lang0 s =
     (let lang = (if truthy lang0 then lang0 else currentLanguage s);
          pageName = or_else pageName0 defaultPage;
          cacheKey = str lang @ ''-'' @ pageName
      in if isExternalURL (Some pageName)
         then (None, s\<lparr>opened := opened s @ [(pageName, ''_blank'', ''noopener,noreferrer'')]\<rparr>)
         else
           (case (if truthy (cache_pages s cacheKey) then cache_pages s cacheKey else None) of
              Some cached \<Rightarrow>
                (None, (updateURL (Some pageName) lang (renderContent cached s))
                       \<lparr>currentPage := Some pageName\<rparr>)
            | None \<Rightarrow>
                (Some (pageName, lang),
                 s\<lparr>fetched := fetched s @ [''pages/'' @ str lang @ ''/'' @ fileName pageName]\<rparr>)))"

definition loadContent_arrival :: "env \<Rightarrow> string \<times> string option \<Rightarrow> state \<Rightarrow> state" where
  "loadContent_arrival env awaited s =
     (case awaited of
        (pageName, lang) \<Rightarrow>
          (case (case fetch env (''pages/'' @ str lang @ ''/'' @ fileName pageName) of
                   None \<Rightarrow> None
                 | Some r \<Rightarrow>
                     if \<not> ok r then None
                     else if split_pop (fileName pageName) = ''md''
                     then (case marked env of
                             Some parse \<Rightarrow> parse (body r)
                           | None \<Rightarrow> Some (body r))
                     else Some (body r)) of
             Some processedContent \<Rightarrow>
               (updateURL (Some pageName) lang
                  (renderContent processedContent
                     (s\<lparr>cache_pages :=
                          (cache_pages s)(str lang @ ''-'' @ pageName \<mapsto> processedContent)\<rparr>)))
               \<lparr>currentPage := Some pageName\<rparr>
           | None \<Rightarrow>
               showError (''Failed to load page: '' @ pageName)
                 (log Error (''Failed to load content: '' @ pageName) s)))"

text \<open>
  \<open>setLanguage\<close>: after the two starts, \<open>page_after env\<close> answers to navigation
  requests arrive, then the answer to the page request, then the answers to what the
  navigation still awaits (a navigation load has at most two requests).
\<close>

definition setLanguage :: "env \<Rightarrow> string option \<Rightarrow> state \<Rightarrow> state" where
  "setLanguage env newLang s =
     (if validateLanguage newLang = None \<or> newLang = currentLanguage s then s
      else
        (let s1 = log Log ''Loading...'' s;
             s2 = s1\<lparr>currentLanguage := newLang, storedLanguage := newLang\<rparr>;
             nav = loadNavigation_start env newLang s2;
             page = loadContent_start env (currentPage (snd nav)) newLang (snd nav);
             nav1 = (loadNavigation_turn env ^^ page_after env) (fst nav, snd page);
             s3 = (case fst page of
                     None \<Rightarrow> snd nav1
                   | Some awaited \<Rightarrow> loadContent_arrival env awaited (snd nav1));
             nav2 = loadNavigation_turn env (loadNavigation_turn env (fst nav1, s3));
             s4 = updateLanguageUI (snd nav2);
             s5 = updateURL (currentPage s4) newLang s4
         in log Log ''Loading complete'' s5))"

text \<open>
  The \<open>popstate\<close> listener; its argument is \<open>event.state\<close>, \<open>None\<close> when that is
  \<open>null\<close>, otherwise the \<open>page\<close> and \<open>lang\<close> of the state object.
\<close>

definition popstate :: "env \<Rightarrow> (string option \<times> string option) option \<Rightarrow> state \<Rightarrow> state" where
  "popstate env st s =
     (case st of
        None \<Rightarrow> s
      | Some (page, lang) \<Rightarrow>
          initializeApp env
            (s\<lparr>currentLanguage := Some (or_else lang defaultLanguage),
               currentPage := Some (or_else page defaultPage)\<rparr>))"

subsection \<open>Concrete inputs\<close>

text \<open>
  The state in which the script starts, on a page that has the elements of the DOM
  contract, all of them empty.
\<close>

definition startup :: state where
  "startup =
     \<lparr>currentLanguage = None, currentPage = None,
      navData = \<lparr>doc_name = None, doc_payment = None, doc_nav = None\<rparr>,
      cache_nav = Map.empty, cache_pages = Map.empty, storedLanguage = None,
      document = [''content'' \<mapsto> [], ''councilName'' \<mapsto> [], ''PaymentName'' \<mapsto> [],
                  ''navItem1'' \<mapsto> [], ''navItem2'' \<mapsto> [], ''footerNav'' \<mapsto> []],
      languageUI = None, history = [], opened = [], fetched = [], console = []\<rparr>"

text \<open>
  A small site: the navigation of the default language only, the markdown page
  \<open>about\<close> in two languages, a page with an empty body and a page the server answers
  with an error status. Its \<open>marked.parse\<close> wraps the text in a paragraph, and
  pages are answered before navigation documents.
\<close>

definition site_doc :: nav_doc where
  "site_doc = \<lparr>doc_name = Some ''Council'', doc_payment = Some ''Payments'',
               doc_nav = Some [NavItem (Some ''Home'') (Some ''home.html'') None]\<rparr>"

definition site :: env where
  \<open>site =
     \<lparr>fetch = (\<lambda>url.
        if url = ''static/lang/si.json''
          then Some \<lparr>ok = True, body = ''{"name":"Council","payment":"Payments","nav":[{"text":"Home","link":"home.html"}]}''\<rparr>
        else if url = ''pages/ta/about.md'' then Some \<lparr>ok = True, body = ''# About''\<rparr>
        else if url = ''pages/en/about.md'' then Some \<lparr>ok = True, body = ''# About''\<rparr>
        else if url = ''pages/en/blank.html'' then Some \<lparr>ok = True, body = []\<rparr>
        else if url = ''pages/en/missing.html'' then Some \<lparr>ok = False, body = ''Not Found''\<rparr>
        else None),
      json = (\<lambda>b.
        if b = ''{"name":"Council","payment":"Payments","nav":[{"text":"Home","link":"home.html"}]}''
        then Some site_doc else None),
      marked = Some (\<lambda>m. Some (''<p>'' @ m @ ''</p>'')),
      page_after = 0\<rparr>\<close>

subsection \<open>Notions the properties are stated with\<close>

text \<open>
  The load of a navigation document from \<open>url\<close> fails: the fetch rejects, the response
  is not \<open>ok\<close>, or \<open>response.json()\<close> rejects.
\<close>

definition navigation_fails :: "env \<Rightarrow> string \<Rightarrow> bool" where
  "navigation_fails env url =
     (case fetch env url of None \<Rightarrow> True | Some r \<Rightarrow> \<not> ok r \<or> json env (body r) = None)"

text \<open>
  The document with a navigation document rendered into it: of the elements the page
  has, each of the three navigation containers holds one rendered item for each item of
  \<open>nav\<close>, in order, and nothing else (nothing at all without a \<open>nav\<close> array);
  \<open>councilName\<close> and \<open>PaymentName\<close> hold the name and the payment label when these
  are truthy; every other element is as before.
\<close>

definition rendered_navigation :: "nav_doc \<Rightarrow> (string \<rightharpoonup> node list) \<Rightarrow> (string \<rightharpoonup> node list)" where
  "rendered_navigation d doc i =
     (case doc i of
        None \<Rightarrow> None
      | Some old \<Rightarrow>
          if i \<in> set [''navItem1'', ''navItem2'', ''footerNav'']
          then Some (case doc_nav d of None \<Rightarrow> [] | Some items \<Rightarrow> map createNavItem items)
          else if i = ''councilName'' \<and> truthy (doc_name d) then Some (textContent (doc_name d))
          else if i = ''PaymentName'' \<and> truthy (doc_payment d) then Some (textContent (doc_payment d))
          else Some old)"

text \<open>
  Loading page \<open>P\<close> in language \<open>L\<close> from the network fails: the fetch fails, or the
  file is markdown and \<open>marked.parse\<close> throws on its text.
\<close>

definition content_load_fails :: "env \<Rightarrow> string \<Rightarrow> string \<Rightarrow> bool" where
  "content_load_fails env L P =
     (case fetch env (''pages/'' @ L @ ''/'' @ fileName P) of
        None \<Rightarrow> True
      | Some r \<Rightarrow>
          \<not> ok r \<or>
          (split_pop (fileName P) = ''md'' \<and>
           (case marked env of None \<Rightarrow> False | Some parse \<Rightarrow> parse (body r) = None)))"

text \<open>
  The shape of rendered navigation. A toggle is an anchor marked \<open>dropdown-toggle\<close>
  (top level) or \<open>has-submenu\<close> (inside a dropdown); a link is any other anchor.
\<close>

fun is_tag :: "string \<Rightarrow> node \<Rightarrow> bool" where
  "is_tag t (Element tg cs as ls ns) = (tg = t)"
| "is_tag t _ = False"

fun has_class :: "string \<Rightarrow> node \<Rightarrow> bool" where
  "has_class c (Element tg cs as ls ns) = (c \<in> set cs)"
| "has_class c _ = False"

fun children :: "node \<Rightarrow> node list" where
  "children (Element tg cs as ls ns) = ns"
| "children _ = []"

definition is_toggle :: "node \<Rightarrow> bool" where
  "is_toggle n =
     (is_tag ''a'' n \<and> (has_class ''dropdown-toggle'' n \<or> has_class ''has-submenu'' n))"

definition is_link :: "node \<Rightarrow> bool" where
  "is_link n = (is_tag ''a'' n \<and> \<not> is_toggle n)"

text \<open>
  \<open>renders_item item n\<close>: the node \<open>n\<close> is a list element that holds exactly one link
  when \<open>item\<close> has no \<open>sub_menu\<close> array, and otherwise a toggle followed by a list with
  one child for each sub-item, each child again of this shape for its sub-item.
\<close>

fun renders_item :: "nav_item \<Rightarrow> node \<Rightarrow> bool"
  and renders_items :: "nav_item list \<Rightarrow> node list \<Rightarrow> bool" where
  "renders_item (NavItem t l None) n =
     (is_tag ''li'' n \<and> (case children n of [a] \<Rightarrow> is_link a | _ \<Rightarrow> False))"
| "renders_item (NavItem t l (Some subs)) n =
     (is_tag ''li'' n \<and>
      (case children n of
         [toggle, menu] \<Rightarrow>
           is_toggle toggle \<and> is_tag ''ul'' menu \<and> length (children menu) = length subs \<and>
           renders_items subs (children menu)
       | _ \<Rightarrow> False))"
| "renders_items [] ns = (ns = [])"
| "renders_items (i # is) ns =
     (case ns of [] \<Rightarrow> False | n # ns' \<Rightarrow> renders_item i n \<and> renders_items is ns')"


section \<open>Language resolution at startup\<close>

text \<open>
  C1. For every \<open>lang\<close> parameter of the URL and every stored preference, the language
  resolved by \<open>initializeFromURL\<close> is the first of URL parameter, stored preference and
  \<open>si\<close> that is a member of \<open>{si, en, ta}\<close>; it is always a member of that set, and it
  is what \<open>localStorage\<close> holds afterwards.
\<close>

theorem initializeFromURL_language:
  "currentLanguage (initializeFromURL langParam pageParam s) =
     (if langParam \<in> Some ` {''si'', ''en'', ''ta''} then langParam
      else if storedLanguage s \<in> Some ` {''si'', ''en'', ''ta''} then storedLanguage s
      else Some ''si'')
   \<and> currentLanguage (initializeFromURL langParam pageParam s) \<in> Some ` {''si'', ''en'', ''ta''}
   \<and> storedLanguage (initializeFromURL langParam pageParam s) =
       currentLanguage (initializeFromURL langParam pageParam s)"
  by (auto simp: initializeFromURL_def Let_def or_else_def validateLanguage_def
        supportedLanguages_def defaultLanguage_def split: option.splits)

theorem initializeFromURL_language_witness:
  "currentLanguage (initializeFromURL (Some ''fr'') None (startup\<lparr>storedLanguage := Some ''ta''\<rparr>))
     = Some ''ta''
   \<and> storedLanguage (initializeFromURL (Some ''fr'') None (startup\<lparr>storedLanguage := Some ''ta''\<rparr>))
     = Some ''ta''"
  using initializeFromURL_language [of "Some ''fr''" None "startup\<lparr>storedLanguage := Some ''ta''\<rparr>"]
  by simp

section \<open>Rendering changes the document only\<close>

lemma clearContainer_frame: "clearContainer i s = s\<lparr>document := document (clearContainer i s)\<rparr>"
  by (simp add: clearContainer_def split: option.splits)

lemma appendChild_frame: "appendChild i n s = s\<lparr>document := document (appendChild i n s)\<rparr>"
  by (simp add: appendChild_def split: option.splits)

lemma updateTextContent_frame:
  "updateTextContent i t s = s\<lparr>document := document (updateTextContent i t s)\<rparr>"
  by (simp add: updateTextContent_def split: option.splits)

lemma fold_frame:
  assumes "\<And>x s. f x s = s\<lparr>document := document (f x s)\<rparr>"
  shows "fold f xs s = s\<lparr>document := document (fold f xs s)\<rparr>"
proof (induction xs arbitrary: s)
  case Nil
  show ?case by simp
next
  case (Cons x xs)
  have "fold f (x # xs) s = fold f xs (f x s)" by simp
  also have "\<dots> = (f x s)\<lparr>document := document (fold f xs (f x s))\<rparr>"
    by (rule Cons.IH)
  also have "\<dots> = (s\<lparr>document := document (f x s)\<rparr>)\<lparr>document := document (fold f xs (f x s))\<rparr>"
    using assms [of x s] by simp
  finally show ?case by simp
qed

lemma renderNavigation_frame:
  "renderNavigation d s = s\<lparr>document := document (renderNavigation d s)\<rparr>"
proof -
  let ?s1 = "updateTextContent ''councilName'' (doc_name d) s"
  let ?s2 = "updateTextContent ''PaymentName'' (doc_payment d) ?s1"
  let ?s3 = "fold clearContainer navContainers ?s2"
  have 1: "?s1 = s\<lparr>document := document ?s1\<rparr>" by (rule updateTextContent_frame)
  have 2: "?s2 = ?s1\<lparr>document := document ?s2\<rparr>" by (rule updateTextContent_frame)
  have 3: "?s3 = ?s2\<lparr>document := document ?s3\<rparr>"
    by (rule fold_frame) (rule clearContainer_frame)
  have s3: "?s3 = s\<lparr>document := document ?s3\<rparr>"
    by (subst 3, subst 2, subst 1) simp
  show ?thesis
  proof (cases "doc_nav d")
    case None
    then have "renderNavigation d s = ?s3" by (simp add: renderNavigation_def)
    with s3 show ?thesis by simp
  next
    case (Some items)
    let ?s4 = "fold (\<lambda>c. fold (\<lambda>item. appendChild c (createNavItem item)) items) navContainers ?s3"
    have "?s4 = ?s3\<lparr>document := document ?s4\<rparr>"
      by (rule fold_frame) (rule fold_frame, rule appendChild_frame)
    then have "?s4 = s\<lparr>document := document ?s4\<rparr>"
      by (subst (asm) s3) simp
    moreover have "renderNavigation d s = ?s4" using Some by (simp add: renderNavigation_def)
    ultimately show ?thesis by simp
  qed
qed

lemma renderNavigation_fields [simp]:
  "currentLanguage (renderNavigation d s) = currentLanguage s"
  "currentPage (renderNavigation d s) = currentPage s"
  "navData (renderNavigation d s) = navData s"
  "cache_nav (renderNavigation d s) = cache_nav s"
  "cache_pages (renderNavigation d s) = cache_pages s"
  "storedLanguage (renderNavigation d s) = storedLanguage s"
  "languageUI (renderNavigation d s) = languageUI s"
  "history (renderNavigation d s) = history s"
  "opened (renderNavigation d s) = opened s"
  "fetched (renderNavigation d s) = fetched s"
  "console (renderNavigation d s) = console s"
  by (subst renderNavigation_frame, simp)+

section \<open>What rendering the navigation leaves in the document\<close>

lemma document_updateTextContent:
  "document (updateTextContent i t s) =
     (if document s i \<noteq> None \<and> truthy t then (document s)(i \<mapsto> textContent t) else document s)"
  by (auto simp: updateTextContent_def split: option.splits)

lemma document_clearContainer:
  "document (clearContainer c s) = (if document s c \<noteq> None then (document s)(c \<mapsto> []) else document s)"
  by (auto simp: clearContainer_def innerHTML_def split: option.splits)

lemma document_append_items:
  "document (fold (\<lambda>item. appendChild c (createNavItem item)) items s) =
     (case document s c of
        None \<Rightarrow> document s
      | Some ns \<Rightarrow> (document s)(c \<mapsto> ns @ map createNavItem items))"
proof (induction items arbitrary: s)
  case Nil
  show ?case by (auto split: option.splits)
next
  case (Cons item items)
  have "document (fold (\<lambda>item. appendChild c (createNavItem item)) (item # items) s) =
        document (fold (\<lambda>item. appendChild c (createNavItem item)) items
                    (appendChild c (createNavItem item) s))"
    by simp
  also have "\<dots> =
        (case document (appendChild c (createNavItem item) s) c of
           None \<Rightarrow> document (appendChild c (createNavItem item) s)
         | Some ns \<Rightarrow>
             (document (appendChild c (createNavItem item) s))(c \<mapsto> ns @ map createNavItem items))"
    by (rule Cons.IH)
  also have "\<dots> =
        (case document s c of
           None \<Rightarrow> document s
         | Some ns \<Rightarrow> (document s)(c \<mapsto> ns @ map createNavItem (item # items)))"
    by (simp add: appendChild_def split: option.splits)
  finally show ?case .
qed

lemma document_clear_all:
  "document (fold clearContainer cs s) =
     (\<lambda>i. if i \<in> set cs \<and> document s i \<noteq> None then Some [] else document s i)"
proof (induction cs arbitrary: s)
  case Nil
  show ?case by simp
next
  case (Cons c cs)
  show ?case
    by (rule ext) (simp add: Cons.IH document_clearContainer)
qed

lemma document_append_all:
  "document (fold (\<lambda>c. fold (\<lambda>item. appendChild c (createNavItem item)) items) cs s) i =
     (if i \<in> set cs
      then map_option (\<lambda>ns. ns @ concat (replicate (count_list cs i) (map createNavItem items)))
             (document s i)
      else document s i)"
proof (induction cs arbitrary: s)
  case Nil
  show ?case by simp
next
  case (Cons c cs)
  let ?s = "fold (\<lambda>item. appendChild c (createNavItem item)) items s"
  have d: "document ?s j =
        (if j = c then map_option (\<lambda>ns. ns @ map createNavItem items) (document s j)
         else document s j)" for j
    by (simp add: document_append_items split: option.splits)
  have "document (fold (\<lambda>c. fold (\<lambda>item. appendChild c (createNavItem item)) items) (c # cs) s) i =
        document (fold (\<lambda>c. fold (\<lambda>item. appendChild c (createNavItem item)) items) cs ?s) i"
    by simp
  also have "\<dots> =
     (if i \<in> set cs
      then map_option (\<lambda>ns. ns @ concat (replicate (count_list cs i) (map createNavItem items)))
             (document ?s i)
      else document ?s i)"
    by (rule Cons.IH)
  finally show ?case
    by (cases "document s i") (auto simp: d)
qed

lemma document_renderNavigation:
  "document (renderNavigation d s) = rendered_navigation d (document s)"
proof (rule ext)
  fix i
  let ?s2 = "updateTextContent ''PaymentName'' (doc_payment d)
               (updateTextContent ''councilName'' (doc_name d) s)"
  have c: "count_list navContainers i = (if i \<in> set navContainers then 1 else 0)"
    by (simp add: navContainers_def)
  have s2: "document ?s2 i =
      (case document s i of
         None \<Rightarrow> None
       | Some old \<Rightarrow>
           if i = ''councilName'' \<and> truthy (doc_name d) then Some (textContent (doc_name d))
           else if i = ''PaymentName'' \<and> truthy (doc_payment d) then Some (textContent (doc_payment d))
           else Some old)"
    by (simp add: document_updateTextContent split: option.splits)
  have n: "i \<in> set navContainers \<Longrightarrow> i \<noteq> ''councilName'' \<and> i \<noteq> ''PaymentName''"
    by (auto simp: navContainers_def)
  have m: "(i \<in> set [''navItem1'', ''navItem2'', ''footerNav'']) = (i \<in> set navContainers)"
    by (simp add: navContainers_def)
  show "document (renderNavigation d s) i = rendered_navigation d (document s) i"
  proof (cases "doc_nav d")
    case None
    then show ?thesis
      unfolding renderNavigation_def Let_def rendered_navigation_def m
      using n by (simp add: document_clear_all s2 split: option.splits)
  next
    case (Some items)
    then show ?thesis
      unfolding renderNavigation_def Let_def rendered_navigation_def m
      using n by (simp add: document_append_all document_clear_all s2 c split: option.splits)
  qed
qed

lemma renderNavigation_eq:
  "renderNavigation d s = s\<lparr>document := rendered_navigation d (document s)\<rparr>"
  by (subst renderNavigation_frame) (simp add: document_renderNavigation)

section \<open>Navigation fallback\<close>

lemma loadNavigation_try_fails:
  assumes "cache_nav s (str lang) = None"
    and "navigation_fails env (''static/lang/'' @ str lang @ ''.json'')"
  shows "\<exists>e. loadNavigation_try env lang s =
           (Some e, s\<lparr>fetched := fetched s @ [''static/lang/'' @ str lang @ ''.json'']\<rparr>)"
  using assms
  by (auto simp: loadNavigation_try_def navigation_fails_def Let_def split: option.splits)

lemma loadNavigation_default_fails:
  assumes "cache_nav s ''si'' = None" and "navigation_fails env ''static/lang/si.json''"
  shows "loadNavigation env (Some ''si'') s =
           s\<lparr>fetched := fetched s @ [''static/lang/si.json''],
             console := console s @ [(Error, ''Failed to load navigation for si:'')]\<rparr>"
proof -
  obtain e where "loadNavigation_try env (Some ''si'') s =
      (Some e, s\<lparr>fetched := fetched s @ [''static/lang/si.json'']\<rparr>)"
    using loadNavigation_try_fails [of s "Some ''si''" env] assms by (auto simp: str_def)
  then show ?thesis
    by (subst loadNavigation.simps) (simp add: defaultLanguage_def log_def str_def)
qed

lemma loadNavigation_falls_back:
  assumes "L \<noteq> ''si''" and "cache_nav s L = None"
    and "navigation_fails env (''static/lang/'' @ L @ ''.json'')"
  shows "loadNavigation env (Some L) s =
           loadNavigation env (Some ''si'')
             (s\<lparr>fetched := fetched s @ [''static/lang/'' @ L @ ''.json''],
                console := console s @ [(Error, ''Failed to load navigation for '' @ L @ '':''),
                                        (Warn, ''Falling back to si'')]\<rparr>)"
proof -
  obtain e where "loadNavigation_try env (Some L) s =
      (Some e, s\<lparr>fetched := fetched s @ [''static/lang/'' @ L @ ''.json'']\<rparr>)"
    using loadNavigation_try_fails [of s "Some L" env] assms by (auto simp: str_def)
  then show ?thesis using assms(1)
    by (subst loadNavigation.simps) (simp add: defaultLanguage_def log_def str_def)
qed

lemma loadNavigation_cached:
  assumes "cache_nav s L = Some d"
  shows "loadNavigation env (Some L) s =
           s\<lparr>navData := d, document := rendered_navigation d (document s)\<rparr>"
  using assms
  by (subst loadNavigation.simps)
     (simp add: loadNavigation_try_def str_def renderNavigation_eq)

lemma loadNavigation_fetched:
  assumes "cache_nav s L = None" and "fetch env (''static/lang/'' @ L @ ''.json'') = Some r"
    and "ok r" and "json env (body r) = Some d"
  shows "loadNavigation env (Some L) s =
           s\<lparr>fetched := fetched s @ [''static/lang/'' @ L @ ''.json''], navData := d,
              cache_nav := (cache_nav s)(L \<mapsto> d),
              document := rendered_navigation d (document s)\<rparr>"
  using assms
  by (subst loadNavigation.simps)
     (simp add: loadNavigation_try_def str_def Let_def renderNavigation_eq)

text \<open>
  C4. Let the navigation of a language \<open>L\<close> other than \<open>si\<close> be uncached and its load
  fail (the fetch rejects, the response is not \<open>ok\<close>, or its JSON cannot be read). Then
  \<open>loadNavigation\<close> logs the failure and the fallback and makes one attempt on \<open>si\<close>.
  If the navigation of \<open>si\<close> is cached, it becomes \<open>navData\<close> and is rendered into the
  document, with no second fetch. Otherwise \<open>static/lang/si.json\<close> is fetched; if
  that succeeds, the document read is cached, becomes \<open>navData\<close> and is rendered into
  the document; if that load fails in any of the three ways, the failure is logged and
  nothing else happens: two fetches, three log entries, every other part of the state as
  before. A failed load for \<open>si\<close> itself is logged, with one fetch and no fallback.
  These are all the cases for \<open>si\<close>: cached, loaded, failed.
\<close>

theorem loadNavigation_fallback_once:
  "(L \<noteq> ''si'' \<and> cache_nav s L = None \<and>
    navigation_fails env (''static/lang/'' @ L @ ''.json'') \<longrightarrow>
      (let s1 = s\<lparr>fetched := fetched s @ [''static/lang/'' @ L @ ''.json''],
                   console := console s @ [(Error, ''Failed to load navigation for '' @ L @ '':''),
                                           (Warn, ''Falling back to si'')]\<rparr>
       in (\<forall>d. cache_nav s ''si'' = Some d \<longrightarrow>
              loadNavigation env (Some L) s =
                s1\<lparr>navData := d, document := rendered_navigation d (document s)\<rparr>) \<and>
          (\<forall>r d. cache_nav s ''si'' = None \<and> fetch env ''static/lang/si.json'' = Some r \<and> ok r \<and>
                 json env (body r) = Some d \<longrightarrow>
              loadNavigation env (Some L) s =
                s1\<lparr>fetched := fetched s @ [''static/lang/'' @ L @ ''.json'', ''static/lang/si.json''],
                    navData := d, cache_nav := (cache_nav s)(''si'' \<mapsto> d),
                    document := rendered_navigation d (document s)\<rparr>) \<and>
          (cache_nav s ''si'' = None \<and> navigation_fails env ''static/lang/si.json'' \<longrightarrow>
              loadNavigation env (Some L) s =
                s1\<lparr>fetched := fetched s @ [''static/lang/'' @ L @ ''.json'', ''static/lang/si.json''],
                    console := console s1 @ [(Error, ''Failed to load navigation for si:'')]\<rparr>))) \<and>
   (cache_nav s ''si'' = None \<and> navigation_fails env ''static/lang/si.json'' \<longrightarrow>
      loadNavigation env (Some ''si'') s =
        s\<lparr>fetched := fetched s @ [''static/lang/si.json''],
          console := console s @ [(Error, ''Failed to load navigation for si:'')]\<rparr>) \<and>
   (cache_nav s ''si'' \<noteq> None \<or>
    (\<exists>r d. fetch env ''static/lang/si.json'' = Some r \<and> ok r \<and> json env (body r) = Some d) \<or>
    navigation_fails env ''static/lang/si.json'')"
proof -
  have A: "loadNavigation env (Some ''si'') s =
        s\<lparr>fetched := fetched s @ [''static/lang/si.json''],
          console := console s @ [(Error, ''Failed to load navigation for si:'')]\<rparr>"
    if "cache_nav s ''si'' = None" "navigation_fails env ''static/lang/si.json''"
    using that by (rule loadNavigation_default_fails)
  have E: "cache_nav s ''si'' \<noteq> None \<or>
    (\<exists>r d. fetch env ''static/lang/si.json'' = Some r \<and> ok r \<and> json env (body r) = Some d) \<or>
    navigation_fails env ''static/lang/si.json''"
    by (auto simp: navigation_fails_def split: option.splits)
  have B: ?thesis
    if "\<not> (L \<noteq> ''si'' \<and> cache_nav s L = None \<and>
           navigation_fails env (''static/lang/'' @ L @ ''.json''))"
    using that A E by blast
  have C: ?thesis
    if h: "L \<noteq> ''si''" "cache_nav s L = None"
      "navigation_fails env (''static/lang/'' @ L @ ''.json'')"
  proof -
    let ?s1 = "s\<lparr>fetched := fetched s @ [''static/lang/'' @ L @ ''.json''],
                   console := console s @ [(Error, ''Failed to load navigation for '' @ L @ '':''),
                                           (Warn, ''Falling back to si'')]\<rparr>"
    have fb: "loadNavigation env (Some L) s = loadNavigation env (Some ''si'') ?s1"
      using h by (rule loadNavigation_falls_back)
    have c1: "loadNavigation env (Some L) s =
                ?s1\<lparr>navData := d, document := rendered_navigation d (document s)\<rparr>"
      if "cache_nav s ''si'' = Some d" for d
      using that by (simp add: fb loadNavigation_cached)
    have c2: "loadNavigation env (Some L) s =
                ?s1\<lparr>fetched := fetched s @ [''static/lang/'' @ L @ ''.json'', ''static/lang/si.json''],
                    navData := d, cache_nav := (cache_nav s)(''si'' \<mapsto> d),
                    document := rendered_navigation d (document s)\<rparr>"
      if "cache_nav s ''si'' = None" "fetch env ''static/lang/si.json'' = Some r" "ok r"
         "json env (body r) = Some d" for r d
      using that loadNavigation_fetched [of ?s1 "''si''" env r d] by (simp add: fb)
    have c3: "loadNavigation env (Some L) s =
                ?s1\<lparr>fetched := fetched s @ [''static/lang/'' @ L @ ''.json'', ''static/lang/si.json''],
                    console := console ?s1 @ [(Error, ''Failed to load navigation for si:'')]\<rparr>"
      if "cache_nav s ''si'' = None" "navigation_fails env ''static/lang/si.json''"
      using that loadNavigation_default_fails [of ?s1 env] by (simp add: fb)
    show ?thesis
      unfolding Let_def using A E c1 c2 c3 by blast
  qed
  from B C show ?thesis by blast
qed

theorem loadNavigation_fallback_once_witness:
  "''en'' \<noteq> ''si'' \<and> cache_nav startup ''en'' = None \<and>
   navigation_fails site ''static/lang/en.json'' \<and> cache_nav startup ''si'' = None \<and>
   fetched (loadNavigation site (Some ''en'') startup) =
     [''static/lang/en.json'', ''static/lang/si.json''] \<and>
   navData (loadNavigation site (Some ''en'') startup) = site_doc \<and>
   cache_nav (loadNavigation site (Some ''en'') startup) ''si'' = Some site_doc \<and>
   cache_nav (loadNavigation site (Some ''en'') startup) ''en'' = None \<and>
   document (loadNavigation site (Some ''en'') startup) ''navItem1'' =
     Some [Element ''li'' [''nav-item''] [] []
             [Element ''a'' [''nav-link''] [(''href'', ''#'')] [LoadLink (Some ''home.html'')]
                [TextNode ''Home'']]] \<and>
   document (loadNavigation site (Some ''en'') startup) ''navItem2'' =
     document (loadNavigation site (Some ''en'') startup) ''navItem1'' \<and>
   document (loadNavigation site (Some ''en'') startup) ''footerNav'' =
     document (loadNavigation site (Some ''en'') startup) ''navItem1'' \<and>
   document (loadNavigation site (Some ''en'') startup) ''councilName'' =
     Some [TextNode ''Council''] \<and>
   document (loadNavigation site (Some ''en'') startup) ''PaymentName'' =
     Some [TextNode ''Payments''] \<and>
   document (loadNavigation site (Some ''en'') startup) ''content'' = Some [] \<and>
   navigation_fails (site\<lparr>fetch := \<lambda>url. None\<rparr>) ''static/lang/si.json'' \<and>
   loadNavigation (site\<lparr>fetch := \<lambda>url. None\<rparr>) (Some ''en'') startup =
     startup\<lparr>fetched := [''static/lang/en.json'', ''static/lang/si.json''],
             console := [(Error, ''Failed to load navigation for en:''),
                         (Warn, ''Falling back to si''),
                         (Error, ''Failed to load navigation for si:'')]\<rparr> \<and>
   navigation_fails (site\<lparr>json := \<lambda>b. None\<rparr>) ''static/lang/si.json'' \<and>
   loadNavigation (site\<lparr>json := \<lambda>b. None\<rparr>) (Some ''en'') startup =
     startup\<lparr>fetched := [''static/lang/en.json'', ''static/lang/si.json''],
             console := [(Error, ''Failed to load navigation for en:''),
                         (Warn, ''Falling back to si''),
                         (Error, ''Failed to load navigation for si:'')]\<rparr>"
proof -
  have site_results:
    "fetched (loadNavigation site (Some ''en'') startup) =
       [''static/lang/en.json'', ''static/lang/si.json'']"
    "navData (loadNavigation site (Some ''en'') startup) = site_doc"
    "cache_nav (loadNavigation site (Some ''en'') startup) ''si'' = Some site_doc"
    "cache_nav (loadNavigation site (Some ''en'') startup) ''en'' = None"
    "document (loadNavigation site (Some ''en'') startup) =
       rendered_navigation site_doc (document startup)"
    using loadNavigation_fallback_once [of "''en''" startup site]
    by (simp_all add: startup_def site_def navigation_fails_def Let_def)
  have rendered:
    "rendered_navigation site_doc (document startup) ''navItem1'' =
       Some [Element ''li'' [''nav-item''] [] []
               [Element ''a'' [''nav-link''] [(''href'', ''#'')] [LoadLink (Some ''home.html'')]
                  [TextNode ''Home'']]]"
    "rendered_navigation site_doc (document startup) ''navItem2'' =
       rendered_navigation site_doc (document startup) ''navItem1''"
    "rendered_navigation site_doc (document startup) ''footerNav'' =
       rendered_navigation site_doc (document startup) ''navItem1''"
    "rendered_navigation site_doc (document startup) ''councilName'' = Some [TextNode ''Council'']"
    "rendered_navigation site_doc (document startup) ''PaymentName'' = Some [TextNode ''Payments'']"
    "rendered_navigation site_doc (document startup) ''content'' = Some []"
    by (simp_all add: rendered_navigation_def site_doc_def startup_def createNavItem_def
          createNavLink_def isExternalURL_def startsWith_def textContent_def truthy_def)
  have all_rejected:
    "navigation_fails (site\<lparr>fetch := \<lambda>url. None\<rparr>) ''static/lang/si.json''"
    "loadNavigation (site\<lparr>fetch := \<lambda>url. None\<rparr>) (Some ''en'') startup =
     startup\<lparr>fetched := [''static/lang/en.json'', ''static/lang/si.json''],
             console := [(Error, ''Failed to load navigation for en:''),
                         (Warn, ''Falling back to si''),
                         (Error, ''Failed to load navigation for si:'')]\<rparr>"
    using loadNavigation_fallback_once [of "''en''" startup "site\<lparr>fetch := \<lambda>url. None\<rparr>"]
    by (simp_all add: startup_def navigation_fails_def Let_def)
  have json_rejected:
    "navigation_fails (site\<lparr>json := \<lambda>b. None\<rparr>) ''static/lang/si.json''"
    "loadNavigation (site\<lparr>json := \<lambda>b. None\<rparr>) (Some ''en'') startup =
     startup\<lparr>fetched := [''static/lang/en.json'', ''static/lang/si.json''],
             console := [(Error, ''Failed to load navigation for en:''),
                         (Warn, ''Falling back to si''),
                         (Error, ''Failed to load navigation for si:'')]\<rparr>"
    using loadNavigation_fallback_once [of "''en''" startup "site\<lparr>json := \<lambda>b. None\<rparr>"]
    by (simp_all add: startup_def site_def navigation_fails_def Let_def)
  have pre: "cache_nav startup ''en'' = None" "cache_nav startup ''si'' = None"
    "navigation_fails site ''static/lang/en.json''"
    by (simp_all add: startup_def site_def navigation_fails_def)
  show ?thesis
    using pre all_rejected json_rejected
    by (simp add: site_results rendered)
qed

section \<open>Loading a page\<close>

lemma or_else_Some: "x \<noteq> [] \<Longrightarrow> or_else (Some x) d = x"
  by (simp add: or_else_def)

lemma isExternalURL_iff:
  "isExternalURL (Some P) = (startsWith P ''http://'' \<or> startsWith P ''https://'')"
  by (auto simp: isExternalURL_def startsWith_def)

lemma loadContent_general:
  assumes "\<not> isExternalURL (Some (or_else p defaultPage))"
  shows "loadContent env p l s =
           (case loadContent_try env (or_else p defaultPage)
                   (if truthy l then l else currentLanguage s) s of
              (None, s') \<Rightarrow> s'
            | (Some e, s') \<Rightarrow>
                showError (''Failed to load page: '' @ or_else p defaultPage)
                  (log Error (''Failed to load content: '' @ or_else p defaultPage) s'))"
  using assms by (simp add: loadContent_def Let_def)

lemma loadContent_local:
  assumes "P \<noteq> []" and "L \<noteq> []" and "\<not> isExternalURL (Some P)"
  shows "loadContent env (Some P) (Some L) s =
           (case loadContent_try env P (Some L) s of
              (None, s') \<Rightarrow> s'
            | (Some e, s') \<Rightarrow>
                showError (''Failed to load page: '' @ P)
                  (log Error (''Failed to load content: '' @ P) s'))"
proof -
  have P: "or_else (Some P) defaultPage = P"
    using assms(1) by (rule or_else_Some)
  show ?thesis
    using assms(2,3) loadContent_general [of "Some P" env "Some L" s]
    unfolding P by (simp add: truthy_def)
qed

lemma loadContent_try_fails:
  assumes "\<not> truthy (cache_pages s (str lang @ ''-'' @ P))"
    and "content_load_fails env (str lang) P"
  shows "\<exists>e. loadContent_try env P lang s =
           (Some e, s\<lparr>fetched := fetched s @ [''pages/'' @ str lang @ ''/'' @ fileName P]\<rparr>)"
  using assms
  by (auto simp: loadContent_try_def content_load_fails_def Let_def split: option.splits)

lemma loadContent_try_loads:
  assumes "\<not> truthy (cache_pages s (L @ ''-'' @ P))"
    and "fetch env (''pages/'' @ L @ ''/'' @ fileName P) = Some r" and "ok r"
    and "(if split_pop (fileName P) = ''md''
          then (case marked env of Some parse \<Rightarrow> parse (body r) | None \<Rightarrow> Some (body r))
          else Some (body r)) = Some c"
  shows "loadContent_try env P (Some L) s =
           (None, s\<lparr>fetched := fetched s @ [''pages/'' @ L @ ''/'' @ fileName P],
                    cache_pages := (cache_pages s)(L @ ''-'' @ P \<mapsto> c),
                    document := (case document s ''content'' of None \<Rightarrow> document s
                                 | Some old \<Rightarrow> (document s)(''content'' \<mapsto> innerHTML c)),
                    history := history s @ [(Some P, Some L, ''?page='' @ P @ ''&lang='' @ L)],
                    currentPage := Some P\<rparr>)"
  using assms
  by (simp add: loadContent_try_def Let_def str_def renderContent_def updateURL_def
        split: option.splits)

lemma loadContent_loads:
  assumes "P \<noteq> []" and "L \<noteq> []" and "\<not> isExternalURL (Some P)"
    and "\<not> truthy (cache_pages s (L @ ''-'' @ P))"
    and "fetch env (''pages/'' @ L @ ''/'' @ fileName P) = Some r" and "ok r"
    and "(if split_pop (fileName P) = ''md''
          then (case marked env of Some parse \<Rightarrow> parse (body r) | None \<Rightarrow> Some (body r))
          else Some (body r)) = Some c"
  shows "loadContent env (Some P) (Some L) s =
           s\<lparr>fetched := fetched s @ [''pages/'' @ L @ ''/'' @ fileName P],
              cache_pages := (cache_pages s)(L @ ''-'' @ P \<mapsto> c),
              document := (case document s ''content'' of None \<Rightarrow> document s
                           | Some old \<Rightarrow> (document s)(''content'' \<mapsto> innerHTML c)),
              history := history s @ [(Some P, Some L, ''?page='' @ P @ ''&lang='' @ L)],
              currentPage := Some P\<rparr>"
  using loadContent_try_loads [OF assms(4-7)] assms(1-3)
  by (simp add: loadContent_local)

lemma loadContent_cached:
  assumes "P \<noteq> []" and "L \<noteq> []" and "\<not> isExternalURL (Some P)"
    and "cache_pages s (L @ ''-'' @ P) = Some c" and "c \<noteq> []"
  shows "loadContent env (Some P) (Some L) s =
           s\<lparr>document := (case document s ''content'' of None \<Rightarrow> document s
                           | Some old \<Rightarrow> (document s)(''content'' \<mapsto> innerHTML c)),
              history := history s @ [(Some P, Some L, ''?page='' @ P @ ''&lang='' @ L)],
              currentPage := Some P\<rparr>"
  using assms
  by (simp add: loadContent_local loadContent_try_def Let_def str_def truthy_def
        renderContent_def updateURL_def split: option.splits)

text \<open>
  A page whose processed content is not empty is fetched once: the second of two calls
  finds the entry of the first, renders the same content and pushes a second history
  entry.
\<close>

lemma loadContent_twice_nonempty:
  assumes "P \<noteq> []" and "L \<noteq> []" and "\<not> isExternalURL (Some P)"
    and "\<not> truthy (cache_pages s (L @ ''-'' @ P))"
    and "fetch env (''pages/'' @ L @ ''/'' @ fileName P) = Some r" and "ok r"
    and "(if split_pop (fileName P) = ''md''
          then (case marked env of Some parse \<Rightarrow> parse (body r) | None \<Rightarrow> Some (body r))
          else Some (body r)) = Some c"
    and "c \<noteq> []"
  shows "loadContent env (Some P) (Some L) (loadContent env (Some P) (Some L) s) =
           s\<lparr>fetched := fetched s @ [''pages/'' @ L @ ''/'' @ fileName P],
              cache_pages := (cache_pages s)(L @ ''-'' @ P \<mapsto> c),
              document := (case document s ''content'' of None \<Rightarrow> document s
                           | Some old \<Rightarrow> (document s)(''content'' \<mapsto> innerHTML c)),
              history := history s @ [(Some P, Some L, ''?page='' @ P @ ''&lang='' @ L),
                                      (Some P, Some L, ''?page='' @ P @ ''&lang='' @ L)],
              currentPage := Some P\<rparr>"
  by (subst loadContent_loads [OF assms(1-7)], subst loadContent_cached [where c = c])
     (use assms(1-3,8) in \<open>simp_all split: option.splits\<close>)

text \<open>
  C2. Two calls of \<open>loadContent\<close> for the same page and language, where the file of the
  page is served with an empty body: the empty string stored by the first call is not a
  truthy cache entry, and the second call fetches the file again.
\<close>

theorem loadContent_twice_empty_page:
  "fetched (loadContent site (Some ''blank.html'') (Some ''en'')
             (loadContent site (Some ''blank.html'') (Some ''en'') startup)) =
     [''pages/en/blank.html'', ''pages/en/blank.html'']"
proof -
  have fn: "fileName ''blank.html'' = ''blank.html''"
    by (simp add: fileName_def startsWith_def)
  have ext: "\<not> isExternalURL (Some ''blank.html'')"
    by (simp add: isExternalURL_def startsWith_def)
  have sp: "split_pop ''blank.html'' = ''html''"
    by (simp add: split_pop_def)
  have 1: "loadContent site (Some ''blank.html'') (Some ''en'') startup =
        startup\<lparr>fetched := [''pages/en/blank.html''],
          cache_pages := [''en-blank.html'' \<mapsto> []],
          document := (document startup)(''content'' \<mapsto> []),
          history := [(Some ''blank.html'', Some ''en'', ''?page=blank.html&lang=en'')],
          currentPage := Some ''blank.html''\<rparr>"
    using ext
    by (subst loadContent_loads [where r = "\<lparr>ok = True, body = []\<rparr>" and c = "[]"])
       (simp_all add: fn sp site_def startup_def truthy_def innerHTML_def)
  show ?thesis
    using ext
    by (subst 1, subst loadContent_loads [where r = "\<lparr>ok = True, body = []\<rparr>" and c = "[]"])
       (simp_all add: fn sp site_def startup_def truthy_def innerHTML_def)
qed

text \<open>
  C5. For a page identifier that begins with \<open>http://\<close> or \<open>https://\<close>, and any
  language argument, \<open>loadContent\<close> records one \<open>window.open\<close> of that URL and leaves
  everything else as it was: nothing is fetched, the page cache, the current page, the
  current language and the history are unchanged.
\<close>

theorem loadContent_external:
  assumes "startsWith P ''http://'' \<or> startsWith P ''https://''"
  shows "loadContent env (Some P) lang s =
           s\<lparr>opened := opened s @ [(P, ''_blank'', ''noopener,noreferrer'')]\<rparr>
         \<and> fetched (loadContent env (Some P) lang s) = fetched s
         \<and> cache_pages (loadContent env (Some P) lang s) = cache_pages s
         \<and> currentPage (loadContent env (Some P) lang s) = currentPage s
         \<and> currentLanguage (loadContent env (Some P) lang s) = currentLanguage s
         \<and> history (loadContent env (Some P) lang s) = history s"
proof -
  have "P \<noteq> []" using assms by (auto simp: startsWith_def)
  then have "loadContent env (Some P) lang s =
      s\<lparr>opened := opened s @ [(P, ''_blank'', ''noopener,noreferrer'')]\<rparr>"
    using assms by (simp add: loadContent_def Let_def or_else_Some isExternalURL_iff)
  then show ?thesis by simp
qed

theorem loadContent_external_witness:
  "startsWith ''https://example.org'' ''https://'' \<and>
   loadContent site (Some ''https://example.org'') (Some ''en'') startup =
     startup\<lparr>opened := [(''https://example.org'', ''_blank'', ''noopener,noreferrer'')]\<rparr> \<and>
   fetched (loadContent site (Some ''https://example.org'') (Some ''en'') startup) = []"
  using loadContent_external [of "''https://example.org''" site "Some ''en''" startup]
  by (simp add: startsWith_def startup_def)

text \<open>
  C9. Let \<open>P\<close> be the page name and \<open>lang\<close> the language after \<open>loadContent\<close> has
  applied its defaults to the arguments, \<open>P\<close> not external, with no truthy cache entry
  under the key of \<open>lang\<close> and \<open>P\<close>, and let the load from the network fail (the fetch
  rejects, the response is not \<open>ok\<close>, or \<open>marked.parse\<close> throws). Then the call
  changes the state in three places only: the fetch is recorded, two errors are logged,
  and the \<open>content\<close> element, if the page has one, holds the error panel. The page
  cache, the current page and the history are as before.
\<close>

theorem loadContent_failure_atomic:
  assumes "P = or_else p defaultPage"
    and "lang = (if truthy l then l else currentLanguage s)"
    and "\<not> isExternalURL (Some P)"
    and "\<not> truthy (cache_pages s (str lang @ ''-'' @ P))"
    and "content_load_fails env (str lang) P"
  shows "loadContent env p l s =
           s\<lparr>fetched := fetched s @ [''pages/'' @ str lang @ ''/'' @ fileName P],
             console := console s @ [(Error, ''Failed to load content: '' @ P),
                                     (Error, ''Failed to load page: '' @ P)],
             document :=
               (case document s ''content'' of
                  None \<Rightarrow> document s
                | Some old \<Rightarrow>
                    (document s)(''content'' \<mapsto>
                       innerHTML (showError_html (''Failed to load page: '' @ P))))\<rparr>
         \<and> cache_pages (loadContent env p l s) = cache_pages s
         \<and> currentPage (loadContent env p l s) = currentPage s
         \<and> history (loadContent env p l s) = history s"
proof -
  obtain e where "loadContent_try env P lang s =
      (Some e, s\<lparr>fetched := fetched s @ [''pages/'' @ str lang @ ''/'' @ fileName P]\<rparr>)"
    using loadContent_try_fails assms(4,5) by blast
  then have eq: "loadContent env p l s =
           s\<lparr>fetched := fetched s @ [''pages/'' @ str lang @ ''/'' @ fileName P],
             console := console s @ [(Error, ''Failed to load content: '' @ P),
                                     (Error, ''Failed to load page: '' @ P)],
             document :=
               (case document s ''content'' of
                  None \<Rightarrow> document s
                | Some old \<Rightarrow>
                    (document s)(''content'' \<mapsto>
                       innerHTML (showError_html (''Failed to load page: '' @ P))))\<rparr>"
    using assms(3)
    unfolding assms(1,2)
    by (simp add: loadContent_general showError_def log_def Let_def split: option.splits)
  show ?thesis
    by (subst eq, subst eq, subst eq, subst eq) simp
qed

theorem loadContent_failure_atomic_witness:
  "\<not> isExternalURL (Some ''missing.html'') \<and>
   \<not> truthy (cache_pages startup ''en-missing.html'') \<and>
   content_load_fails site ''en'' ''missing.html'' \<and>
   cache_pages (loadContent site (Some ''missing.html'') (Some ''en'') startup) = Map.empty \<and>
   currentPage (loadContent site (Some ''missing.html'') (Some ''en'') startup) = None \<and>
   history (loadContent site (Some ''missing.html'') (Some ''en'') startup) = [] \<and>
   fetched (loadContent site (Some ''missing.html'') (Some ''en'') startup) =
     [''pages/en/missing.html''] \<and>
   document (loadContent site (Some ''missing.html'') (Some ''en'') startup) ''content'' =
     Some [Markup (showError_html ''Failed to load page: missing.html'')]"
proof -
  have fn: "fileName ''missing.html'' = ''missing.html''"
    by (simp add: fileName_def startsWith_def)
  have ext: "\<not> isExternalURL (Some ''missing.html'')"
    by (simp add: isExternalURL_def startsWith_def)
  have fails: "content_load_fails site ''en'' ''missing.html''"
    by (simp add: content_load_fails_def fn site_def)
  have nc: "\<not> truthy (cache_pages startup ''en-missing.html'')"
    by (simp add: startup_def truthy_def)
  have panel: "showError_html ''Failed to load page: missing.html'' \<noteq> []"
    by (simp add: showError_html_def)
  show ?thesis
    using loadContent_failure_atomic [of "''missing.html''" "Some ''missing.html''" "Some ''en''"
        "Some ''en''" startup site] ext fails nc panel
    by (simp add: or_else_def truthy_def str_def fn startup_def innerHTML_def)
qed


text \<open>
  C3, as the claim states it, fails at the page identifier \<open>about.html\<close>, which is
  neither \<open>about\<close> nor \<open>contact\<close>: it is fetched from \<open>about.md\<close>, not under its
  given name, and what is cached is the converted text.
\<close>

theorem loadContent_about_html_counterexample:
  "''about.html'' \<noteq> ''about'' \<and> ''about.html'' \<noteq> ''contact'' \<and>
   fetched (loadContent site (Some ''about.html'') (Some ''en'') startup) = [''pages/en/about.md''] \<and>
   fetched (loadContent site (Some ''about.html'') (Some ''en'') startup) \<noteq> [''pages/en/about.html''] \<and>
   fetch site ''pages/en/about.md'' = Some \<lparr>ok = True, body = ''# About''\<rparr> \<and>
   cache_pages (loadContent site (Some ''about.html'') (Some ''en'') startup) ''en-about.html'' =
     Some ''<p># About</p>''"
proof -
  have fn: "fileName ''about.html'' = ''about.md''"
    by (simp add: fileName_def startsWith_def)
  have ext: "\<not> isExternalURL (Some ''about.html'')"
    by (simp add: isExternalURL_def startsWith_def)
  have sp: "split_pop ''about.md'' = ''md''"
    by (simp add: split_pop_def)
  have "loadContent site (Some ''about.html'') (Some ''en'') startup =
        startup\<lparr>fetched := [''pages/en/about.md''],
          cache_pages := [''en-about.html'' \<mapsto> ''<p># About</p>''],
          document := (document startup)(''content'' \<mapsto> [Markup ''<p># About</p>'']),
          history := [(Some ''about.html'', Some ''en'', ''?page=about.html&lang=en'')],
          currentPage := Some ''about.html''\<rparr>"
    using ext
    by (subst loadContent_loads [where r = "\<lparr>ok = True, body = ''# About''\<rparr>"
          and c = "''<p># About</p>''"])
       (simp_all add: fn sp site_def startup_def truthy_def innerHTML_def)
  then show ?thesis by (simp add: site_def)
qed

text \<open>
  C3, amended. For a language \<open>L\<close> and a page identifier \<open>P\<close>, both non-empty, \<open>P\<close> not
  external and without a truthy cache entry, whose file is fetched with success: the file
  is \<open>pages/L/about.md\<close> or \<open>pages/L/contact.md\<close> when \<open>P\<close> without its first
  \<open>.html\<close> is \<open>about\<close> or \<open>contact\<close>, and \<open>pages/L/P\<close> otherwise. When the extension
  of the file name is \<open>md\<close> and \<open>marked\<close> is defined, what is cached under \<open>L-P\<close> and
  rendered is the result of \<open>marked.parse\<close>; when the extension is another one or
  \<open>marked\<close> is undefined, it is the fetched text itself.
\<close>

theorem loadContent_file_and_conversion:
  assumes "P \<noteq> []" and "L \<noteq> []" and "\<not> isExternalURL (Some P)"
    and "\<not> truthy (cache_pages s (L @ ''-'' @ P))"
    and "fetch env (''pages/'' @ L @ ''/'' @ fileName P) = Some r" and "ok r"
  shows "(replace ''.html'' [] P = ''about'' \<longrightarrow> fileName P = ''about.md'') \<and>
         (replace ''.html'' [] P = ''contact'' \<longrightarrow> fileName P = ''contact.md'') \<and>
         (replace ''.html'' [] P \<notin> {''about'', ''contact''} \<longrightarrow> fileName P = P) \<and>
         fetched (loadContent env (Some P) (Some L) s) =
           fetched s @ [''pages/'' @ L @ ''/'' @ fileName P] \<and>
         (\<forall>parse html. split_pop (fileName P) = ''md'' \<and> marked env = Some parse \<and>
              parse (body r) = Some html \<longrightarrow>
            cache_pages (loadContent env (Some P) (Some L) s) =
              (cache_pages s)(L @ ''-'' @ P \<mapsto> html) \<and>
            document (loadContent env (Some P) (Some L) s) ''content'' =
              map_option (\<lambda>old. innerHTML html) (document s ''content'')) \<and>
         (split_pop (fileName P) \<noteq> ''md'' \<or> marked env = None \<longrightarrow>
            cache_pages (loadContent env (Some P) (Some L) s) =
              (cache_pages s)(L @ ''-'' @ P \<mapsto> body r) \<and>
            document (loadContent env (Some P) (Some L) s) ''content'' =
              map_option (\<lambda>old. innerHTML (body r)) (document s ''content''))"
proof -
  note base = assms
  have names: "(replace ''.html'' [] P = ''about'' \<longrightarrow> fileName P = ''about.md'') \<and>
         (replace ''.html'' [] P = ''contact'' \<longrightarrow> fileName P = ''contact.md'') \<and>
         (replace ''.html'' [] P \<notin> {''about'', ''contact''} \<longrightarrow> fileName P = P)"
    by (auto simp: fileName_def)
  have conv: "cache_pages (loadContent env (Some P) (Some L) s) =
              (cache_pages s)(L @ ''-'' @ P \<mapsto> html) \<and>
            document (loadContent env (Some P) (Some L) s) ''content'' =
              map_option (\<lambda>old. innerHTML html) (document s ''content'')"
    if "split_pop (fileName P) = ''md''" "marked env = Some parse" "parse (body r) = Some html"
    for parse html
  proof -
    have "loadContent env (Some P) (Some L) s =
           s\<lparr>fetched := fetched s @ [''pages/'' @ L @ ''/'' @ fileName P],
              cache_pages := (cache_pages s)(L @ ''-'' @ P \<mapsto> html),
              document := (case document s ''content'' of None \<Rightarrow> document s
                           | Some old \<Rightarrow> (document s)(''content'' \<mapsto> innerHTML html)),
              history := history s @ [(Some P, Some L, ''?page='' @ P @ ''&lang='' @ L)],
              currentPage := Some P\<rparr>"
      using that by (intro loadContent_loads [OF base]) simp
    then show ?thesis by (simp split: option.splits)
  qed
  have raw: "cache_pages (loadContent env (Some P) (Some L) s) =
              (cache_pages s)(L @ ''-'' @ P \<mapsto> body r) \<and>
            document (loadContent env (Some P) (Some L) s) ''content'' =
              map_option (\<lambda>old. innerHTML (body r)) (document s ''content'')"
    if "split_pop (fileName P) \<noteq> ''md'' \<or> marked env = None"
  proof -
    have "loadContent env (Some P) (Some L) s =
           s\<lparr>fetched := fetched s @ [''pages/'' @ L @ ''/'' @ fileName P],
              cache_pages := (cache_pages s)(L @ ''-'' @ P \<mapsto> body r),
              document := (case document s ''content'' of None \<Rightarrow> document s
                           | Some old \<Rightarrow> (document s)(''content'' \<mapsto> innerHTML (body r))),
              history := history s @ [(Some P, Some L, ''?page='' @ P @ ''&lang='' @ L)],
              currentPage := Some P\<rparr>"
      using that by (intro loadContent_loads [OF base]) force
    then show ?thesis by (simp split: option.splits)
  qed
  have fetched: "fetched (loadContent env (Some P) (Some L) s) =
           fetched s @ [''pages/'' @ L @ ''/'' @ fileName P]"
  proof (cases "content_load_fails env L P")
    case True
    have "\<exists>e. loadContent_try env P (Some L) s =
           (Some e, s\<lparr>fetched := fetched s @ [''pages/'' @ L @ ''/'' @ fileName P]\<rparr>)"
      using loadContent_try_fails [of s "Some L" P env] assms(4) True by (simp add: str_def)
    then show ?thesis using assms(1-3)
      by (auto simp: loadContent_local showError_def log_def Let_def split: option.splits)
  next
    case False
    then have "\<exists>c. (if split_pop (fileName P) = ''md''
          then (case marked env of Some parse \<Rightarrow> parse (body r) | None \<Rightarrow> Some (body r))
          else Some (body r)) = Some c"
      using assms(5,6) by (cases "marked env") (auto simp: content_load_fails_def)
    then obtain c where "(if split_pop (fileName P) = ''md''
          then (case marked env of Some parse \<Rightarrow> parse (body r) | None \<Rightarrow> Some (body r))
          else Some (body r)) = Some c" ..
    then show ?thesis
      by (subst loadContent_loads [OF base, of c]) simp_all
  qed
  from names conv raw fetched show ?thesis by blast
qed

theorem loadContent_file_and_conversion_witness:
  "\<not> isExternalURL (Some ''about'') \<and> \<not> truthy (cache_pages startup ''ta-about'') \<and>
   fileName ''about'' = ''about.md'' \<and>
   fetch site ''pages/ta/about.md'' = Some \<lparr>ok = True, body = ''# About''\<rparr> \<and>
   fetched (loadContent site (Some ''about'') (Some ''ta'') startup) = [''pages/ta/about.md''] \<and>
   cache_pages (loadContent site (Some ''about'') (Some ''ta'') startup) =
     [''ta-about'' \<mapsto> ''<p># About</p>''] \<and>
   document (loadContent site (Some ''about'') (Some ''ta'') startup) ''content'' =
     Some [Markup ''<p># About</p>'']"
proof -
  have fn: "fileName ''about'' = ''about.md''"
    by (simp add: fileName_def startsWith_def)
  have ext: "\<not> isExternalURL (Some ''about'')"
    by (simp add: isExternalURL_def startsWith_def)
  have sp: "split_pop ''about.md'' = ''md''"
    by (simp add: split_pop_def)
  have nc: "\<not> truthy (cache_pages startup ''ta-about'')"
    by (simp add: startup_def truthy_def)
  have f: "fetch site ''pages/ta/about.md'' = Some \<lparr>ok = True, body = ''# About''\<rparr>"
    by (simp add: site_def)
  have m: "marked site = Some (\<lambda>m. Some (''<p>'' @ m @ ''</p>''))"
    by (simp add: site_def)
  show ?thesis
    using loadContent_file_and_conversion [of "''about''" "''ta''" startup site
        "\<lparr>ok = True, body = ''# About''\<rparr>"] ext nc f m
    by (simp add: fn sp startup_def innerHTML_def)
qed

section \<open>History\<close>

lemma loadNavigation_try_current:
  assumes "loadNavigation_try env lang s = (x, s')"
  shows "currentLanguage s' = currentLanguage s \<and> currentPage s' = currentPage s"
  using assms
  by (auto simp: loadNavigation_try_def Let_def split: option.splits if_splits)

lemma loadNavigation_current:
  "currentLanguage (loadNavigation env lang s) = currentLanguage s \<and>
   currentPage (loadNavigation env lang s) = currentPage s"
proof (induction env lang s rule: loadNavigation.induct)
  case (1 env lang s)
  obtain x s' where tr: "loadNavigation_try env lang s = (x, s')"
    by (cases "loadNavigation_try env lang s")
  note fr = loadNavigation_try_current [OF tr]
  show ?case
  proof (cases x)
    case None
    with tr fr show ?thesis
      by (subst loadNavigation.simps, subst (2) loadNavigation.simps) simp
  next
    case (Some e)
    show ?thesis
    proof (cases "lang = Some defaultLanguage")
      case True
      with tr fr Some show ?thesis
        by (subst loadNavigation.simps, subst (2) loadNavigation.simps) (simp add: log_def)
    next
      case False
      have ih: "currentLanguage (loadNavigation env (Some defaultLanguage)
                  (log Warn (''Falling back to '' @ defaultLanguage)
                     (log Error (''Failed to load navigation for '' @ str lang @ '':'') s'))) =
                currentLanguage s \<and>
                currentPage (loadNavigation env (Some defaultLanguage)
                  (log Warn (''Falling back to '' @ defaultLanguage)
                     (log Error (''Failed to load navigation for '' @ str lang @ '':'') s'))) =
                currentPage s"
        using "1.IH" [OF tr [symmetric] Some refl False] fr
        by (simp add: log_def)
      from tr Some False ih show ?thesis
        by (subst loadNavigation.simps, subst (2) loadNavigation.simps) simp
    qed
  qed
qed

lemma loadContent_try_current:
  assumes "loadContent_try env P lang s = (x, s')"
  shows "currentLanguage s' = currentLanguage s \<and>
         (currentPage s' = currentPage s \<or> currentPage s' = Some P)"
  using assms
  by (auto simp: loadContent_try_def Let_def renderContent_def updateURL_def
        split: option.splits if_splits)

lemma showError_current [simp]:
  "currentLanguage (showError m s) = currentLanguage s"
  "currentPage (showError m s) = currentPage s"
  by (simp_all add: showError_def log_def Let_def split: option.splits)

lemma loadContent_current:
  "currentLanguage (loadContent env p l s) = currentLanguage s \<and>
   (currentPage (loadContent env p l s) = currentPage s \<or>
    currentPage (loadContent env p l s) = Some (or_else p defaultPage))"
proof -
  let ?lang = "if truthy l then l else currentLanguage s"
  let ?P = "or_else p defaultPage"
  obtain x s' where tr: "loadContent_try env ?P ?lang s = (x, s')"
    by (cases "loadContent_try env ?P ?lang s")
  from loadContent_try_current [OF tr] tr show ?thesis
    by (cases x) (auto simp: loadContent_def Let_def log_def)
qed

text \<open>
  C6, as the claim states it, fails for an event without state: the listener leaves the
  language and the page as they are, neither becomes the default, and nothing is loaded.
\<close>

theorem popstate_without_state_counterexample:
  "popstate site None (startup\<lparr>currentLanguage := Some ''en'', currentPage := Some ''about''\<rparr>) =
     startup\<lparr>currentLanguage := Some ''en'', currentPage := Some ''about''\<rparr> \<and>
   currentLanguage
     (popstate site None (startup\<lparr>currentLanguage := Some ''en'', currentPage := Some ''about''\<rparr>))
     \<noteq> Some ''si'' \<and>
   currentPage
     (popstate site None (startup\<lparr>currentLanguage := Some ''en'', currentPage := Some ''about''\<rparr>))
     \<noteq> Some ''home.html'' \<and>
   fetched
     (popstate site None (startup\<lparr>currentLanguage := Some ''en'', currentPage := Some ''about''\<rparr>))
     = []"
  by (simp add: popstate_def startup_def)

text \<open>
  C6, amended. For a \<open>popstate\<close> event that carries a state, the listener sets the
  current language and page to the \<open>lang\<close> and \<open>page\<close> of the state, each replaced by
  its default (\<open>si\<close>, \<open>home.html\<close>) when it is missing or empty, and runs
  \<open>initializeApp\<close>: the navigation is loaded for that language, then the page, then the
  language selector is updated; afterwards the current language and page are the restored
  ones. For an event without state the listener does nothing.
\<close>

theorem popstate_restores:
  "popstate env None s = s \<and>
   (let lang = or_else l ''si''; page = or_else p ''home.html'';
        s0 = s\<lparr>currentLanguage := Some lang, currentPage := Some page\<rparr>;
        s' = popstate env (Some (p, l)) s
    in s' = initializeApp env s0 \<and>
       s' = updateLanguageUI
              (loadContent env (Some page) (Some lang) (loadNavigation env (Some lang) s0)) \<and>
       currentLanguage s' = Some lang \<and> currentPage s' = Some page \<and>
       languageUI s' = Some lang)"
proof -
  let ?lang = "or_else l ''si''" and ?page = "or_else p ''home.html''"
  let ?s0 = "s\<lparr>currentLanguage := Some ?lang, currentPage := Some ?page\<rparr>"
  let ?s1 = "loadNavigation env (Some ?lang) ?s0"
  let ?s2 = "loadContent env (Some ?page) (Some ?lang) ?s1"
  have nav: "currentLanguage ?s1 = Some ?lang" "currentPage ?s1 = Some ?page"
    using loadNavigation_current [of env "Some ?lang" ?s0] by simp_all
  have init: "initializeApp env ?s0 = updateLanguageUI ?s2"
    using loadNavigation_current [of env "Some ?lang" ?s0]
    by (simp add: initializeApp_def Let_def)
  have pg: "or_else (Some ?page) defaultPage = ?page"
    by (simp add: or_else_def defaultPage_def split: option.splits)
  have cur: "currentLanguage ?s2 = Some ?lang" "currentPage ?s2 = Some ?page"
    using loadContent_current [of env "Some ?page" "Some ?lang" ?s1] nav pg by auto
  have pop: "popstate env (Some (p, l)) s = initializeApp env ?s0"
    by (simp add: popstate_def defaultLanguage_def defaultPage_def)
  have "popstate env None s = s" by (simp add: popstate_def)
  moreover have "currentLanguage (updateLanguageUI ?s2) = Some ?lang"
    "currentPage (updateLanguageUI ?s2) = Some ?page"
    "languageUI (updateLanguageUI ?s2) = Some ?lang"
    using cur by (simp_all add: updateLanguageUI_def)
  ultimately show ?thesis
    unfolding Let_def pop init by simp
qed

theorem popstate_restores_witness:
  "currentLanguage (popstate site (Some (None, Some ''en'')) startup) = Some ''en'' \<and>
   currentPage (popstate site (Some (None, Some ''en'')) startup) = Some ''home.html'' \<and>
   languageUI (popstate site (Some (None, Some ''en'')) startup) = Some ''en'' \<and>
   popstate site None startup = startup"
proof -
  have e: "or_else (Some ''en'') ''si'' = ''en''" "or_else None ''home.html'' = ''home.html''"
    by (simp_all add: or_else_def)
  show ?thesis
    using popstate_restores [of site startup "Some ''en''" None]
    unfolding Let_def e by blast
qed

section \<open>The shape of rendered navigation\<close>

lemma is_link_createDropdownLink: "is_link (createDropdownLink t l)"
  by (simp add: createDropdownLink_def is_link_def is_toggle_def)

lemma is_link_createNavLink: "is_link (createNavLink t l)"
  by (simp add: createNavLink_def is_link_def is_toggle_def)

lemma is_toggle_createDropdownToggle: "is_toggle (createDropdownToggle t)"
  by (simp add: createDropdownToggle_def is_toggle_def)

text \<open>Inside a dropdown, every item is rendered in the shape of \<open>renders_item\<close>.\<close>

lemma renders_menuItem:
  "renders_items items (children (createDropdownMenu items))"
  "renders_item item (menuItem item)"
proof (induction items and item rule: createDropdownMenu_menuItem.induct)
  case (1 items)
  then show ?case
    by (induction items) simp_all
next
  case (2 t l subs)
  then show ?case by (simp add: is_toggle_def)
next
  case (3 t l)
  then show ?case by (simp add: is_link_createDropdownLink)
qed

text \<open>
  C7, as the claim states it, fails for an item whose \<open>sub_menu\<close> is the empty array:
  the item has no sub-items, and it is rendered as a toggle and an empty list, two
  children, not as one link.
\<close>

theorem createNavItem_no_sub_items_counterexample:
  "sub_menu (NavItem (Some ''Services'') (Some ''services.html'') (Some [])) = Some [] \<and>
   children (createNavItem (NavItem (Some ''Services'') (Some ''services.html'') (Some []))) =
     [createDropdownToggle (Some ''Services''), Element ''ul'' [''dropdown-menu''] [] [] []] \<and>
   length (children (createNavItem (NavItem (Some ''Services'') (Some ''services.html'') (Some []))))
     \<noteq> 1 \<and>
   \<not> is_link (createDropdownToggle (Some ''Services''))"
  by (simp add: createNavItem_def is_link_def is_toggle_createDropdownToggle)

text \<open>
  C7, amended. An item without a \<open>sub_menu\<close> array is rendered as a list element that
  holds exactly one link. An item with a \<open>sub_menu\<close> array, the empty one included, is
  rendered as a list element that holds a toggle and a list with as many children as the
  array has items; each of these children has this same shape for its sub-item, at every
  depth (\<open>renders_item\<close>).
\<close>

theorem createNavItem_structure:
  "(sub_menu item = None \<longrightarrow>
      is_tag ''li'' (createNavItem item) \<and>
      (\<exists>a. children (createNavItem item) = [a] \<and> is_link a)) \<and>
   (\<forall>subs. sub_menu item = Some subs \<longrightarrow>
      is_tag ''li'' (createNavItem item) \<and>
      (\<exists>toggle menu. children (createNavItem item) = [toggle, menu] \<and> is_toggle toggle \<and>
         is_tag ''ul'' menu \<and> length (children menu) = length subs)) \<and>
   renders_item item (createNavItem item)"
proof (cases item)
  case (NavItem t l sm)
  show ?thesis
  proof (cases sm)
    case None
    with NavItem show ?thesis
      by (simp add: createNavItem_def is_link_createNavLink)
  next
    case (Some subs)
    have "renders_items subs (children (createDropdownMenu subs))"
      by (rule renders_menuItem)
    with NavItem Some show ?thesis
      by (simp add: createNavItem_def is_toggle_createDropdownToggle)
  qed
qed

theorem createNavItem_structure_witness:
  "sub_menu (NavItem (Some ''Services'') None
      (Some [NavItem (Some ''Tax'') (Some ''tax.html'') None,
             NavItem (Some ''More'') None
               (Some [NavItem (Some ''Portal'') (Some ''https://example.org'') None])])) \<noteq> None \<and>
   renders_item
     (NavItem (Some ''Services'') None
        (Some [NavItem (Some ''Tax'') (Some ''tax.html'') None,
               NavItem (Some ''More'') None
                 (Some [NavItem (Some ''Portal'') (Some ''https://example.org'') None])]))
     (createNavItem
        (NavItem (Some ''Services'') None
           (Some [NavItem (Some ''Tax'') (Some ''tax.html'') None,
                  NavItem (Some ''More'') None
                    (Some [NavItem (Some ''Portal'') (Some ''https://example.org'') None])]))) \<and>
   sub_menu (NavItem (Some ''Home'') (Some ''home.html'') None) = None \<and>
   children (createNavItem (NavItem (Some ''Home'') (Some ''home.html'') None)) =
     [createNavLink (Some ''Home'') (Some ''home.html'')]"
  using createNavItem_structure
    [of "NavItem (Some ''Services'') None
           (Some [NavItem (Some ''Tax'') (Some ''tax.html'') None,
                  NavItem (Some ''More'') None
                    (Some [NavItem (Some ''Portal'') (Some ''https://example.org'') None])])"]
    createNavItem_structure [of "NavItem (Some ''Home'') (Some ''home.html'') None"]
  by (simp add: createNavItem_def)

text \<open>
  C10. An item whose \<open>sub_menu\<close> is the empty array is rendered, at the top level and
  inside a dropdown, as a list element that holds a toggle and a dropdown list without
  children; the toggle is not a link.
\<close>

theorem createNavItem_empty_sub_menu:
  assumes "sub_menu item = Some []"
  shows "createNavItem item =
           Element ''li'' [''nav-item'', ''dropdown''] [] []
             [createDropdownToggle (item_text item), Element ''ul'' [''dropdown-menu''] [] [] []]
         \<and> menuItem item =
           Element ''li'' [''dropdown-submenu''] [] []
             [Element ''a'' [''dropdown-item'', ''has-submenu''] [(''href'', ''#'')] []
                (textContent (item_text item)),
              Element ''ul'' [''dropdown-menu''] [] [] []]
         \<and> is_toggle (createDropdownToggle (item_text item))
         \<and> \<not> is_link (createDropdownToggle (item_text item))
         \<and> is_toggle (Element ''a'' [''dropdown-item'', ''has-submenu''] [(''href'', ''#'')] []
                (textContent (item_text item)))
         \<and> children (Element ''ul'' [''dropdown-menu''] [] [] []) = []"
  using assms
  by (cases item)
     (simp add: createNavItem_def is_link_def is_toggle_def createDropdownToggle_def)

theorem createNavItem_empty_sub_menu_witness:
  "sub_menu (NavItem (Some ''Archive'') (Some ''archive.html'') (Some [])) = Some [] \<and>
   createNavItem (NavItem (Some ''Archive'') (Some ''archive.html'') (Some [])) =
     Element ''li'' [''nav-item'', ''dropdown''] [] []
       [Element ''a'' [''nav-link'', ''dropdown-toggle'']
          [(''href'', ''#''), (''role'', ''button''), (''data-bs-toggle'', ''dropdown''),
           (''aria-expanded'', ''false'')] [] [TextNode ''Archive''],
        Element ''ul'' [''dropdown-menu''] [] [] []]"
  using createNavItem_empty_sub_menu [of "NavItem (Some ''Archive'') (Some ''archive.html'') (Some [])"]
  by (simp add: createDropdownToggle_def textContent_def)

section \<open>The turns of the two loads\<close>

text \<open>
  Run to its end, a load is its start followed by its arrivals: these are the functions
  \<open>loadNavigation\<close> and \<open>loadContent\<close>.
\<close>

lemma loadNavigation_turn_settled:
  "fst ps = None \<Longrightarrow> loadNavigation_turn env ps = ps"
  by (simp add: loadNavigation_turn_def)

lemma loadNavigation_default_turn:
  "loadNavigation env (Some defaultLanguage) s =
     snd (loadNavigation_turn env (loadNavigation_start env (Some defaultLanguage) s)) \<and>
   fst (loadNavigation_turn env (loadNavigation_start env (Some defaultLanguage) s)) = None"
proof (cases "cache_nav s (str (Some defaultLanguage))")
  case (Some d)
  then show ?thesis
    by (subst loadNavigation.simps)
       (simp add: loadNavigation_try_def loadNavigation_start_def loadNavigation_turn_def)
next
  case None
  let ?url = "''static/lang/'' @ str (Some defaultLanguage) @ ''.json''"
  have start: "loadNavigation_start env (Some defaultLanguage) s =
                 (Some (Some defaultLanguage), s\<lparr>fetched := fetched s @ [?url]\<rparr>)"
    using None by (simp add: loadNavigation_start_def)
  show ?thesis
  proof (cases "fetch env ?url")
    case rejected: None
    show ?thesis
      using None rejected
      by (subst loadNavigation.simps)
         (simp add: start loadNavigation_try_def loadNavigation_turn_def loadNavigation_arrival_def)
  next
    case (Some r)
    show ?thesis
    proof (cases "ok r")
      case False
      show ?thesis
        using None Some False
        by (subst loadNavigation.simps)
           (simp add: start loadNavigation_try_def loadNavigation_turn_def loadNavigation_arrival_def)
    next
      case True
      show ?thesis
        using None Some True
        by (subst loadNavigation.simps, cases "json env (body r)")
           (simp_all add: start loadNavigation_try_def loadNavigation_turn_def
              loadNavigation_arrival_def)
    qed
  qed
qed

lemma loadNavigation_turns:
  "loadNavigation env lang s =
     snd (loadNavigation_turn env (loadNavigation_turn env (loadNavigation_start env lang s)))"
proof (cases "lang = Some defaultLanguage")
  case True
  show ?thesis
    unfolding True
    by (simp add: loadNavigation_default_turn loadNavigation_turn_settled)
next
  case False
  show ?thesis
  proof (cases "cache_nav s (str lang)")
    case (Some d)
    then show ?thesis
      by (subst loadNavigation.simps)
         (simp add: loadNavigation_try_def loadNavigation_start_def loadNavigation_turn_def)
  next
    case None
    let ?url = "''static/lang/'' @ str lang @ ''.json''"
    let ?s1 = "s\<lparr>fetched := fetched s @ [?url]\<rparr>"
    let ?s2 = "log Warn (''Falling back to '' @ defaultLanguage)
                 (log Error (''Failed to load navigation for '' @ str lang @ '':'') ?s1)"
    have start: "loadNavigation_start env lang s = (Some lang, ?s1)"
      using None by (simp add: loadNavigation_start_def)
    have failure: ?thesis
      if tr: "loadNavigation_try env lang s = (Some e, ?s1)"
        and arr: "loadNavigation_arrival env lang ?s1 =
                    loadNavigation_start env (Some defaultLanguage) ?s2" for e
    proof -
      have first: "loadNavigation_turn env (loadNavigation_start env lang s) =
                     loadNavigation_start env (Some defaultLanguage) ?s2"
        by (simp only: start loadNavigation_turn_def fst_conv snd_conv option.case arr)
      have big: "loadNavigation env lang s = loadNavigation env (Some defaultLanguage) ?s2"
        using False by (subst loadNavigation.simps) (simp add: tr Let_def)
      show ?thesis
        unfolding big first by (simp add: loadNavigation_default_turn)
    qed
    show ?thesis
    proof (cases "fetch env ?url")
      case rejected: None
      show ?thesis
      proof -
        have "\<exists>e. loadNavigation_try env lang s = (Some e, ?s1)"
          using None rejected by (simp add: loadNavigation_try_def)
        moreover have "loadNavigation_arrival env lang ?s1 =
            loadNavigation_start env (Some defaultLanguage) ?s2"
          using None rejected False by (simp add: loadNavigation_arrival_def Let_def)
        ultimately show ?thesis using failure by blast
      qed
    next
      case (Some r)
      show ?thesis
      proof (cases "ok r")
        case not_ok: False
        show ?thesis
        proof -
          have "\<exists>e. loadNavigation_try env lang s = (Some e, ?s1)"
            using None Some not_ok by (simp add: loadNavigation_try_def)
          moreover have "loadNavigation_arrival env lang ?s1 =
              loadNavigation_start env (Some defaultLanguage) ?s2"
            using None Some not_ok False by (simp add: loadNavigation_arrival_def Let_def)
          ultimately show ?thesis using failure by blast
        qed
      next
        case True
        show ?thesis
        proof (cases "json env (body r)")
          case unreadable: None
          show ?thesis
          proof -
            have "\<exists>e. loadNavigation_try env lang s = (Some e, ?s1)"
              using None Some True unreadable by (simp add: loadNavigation_try_def)
            moreover have "loadNavigation_arrival env lang ?s1 =
                loadNavigation_start env (Some defaultLanguage) ?s2"
              using None Some True unreadable False by (simp add: loadNavigation_arrival_def Let_def)
            ultimately show ?thesis using failure by blast
          qed
        next
          case (Some d)
          show ?thesis
            using None \<open>fetch env ?url = Some r\<close> True Some
            by (subst loadNavigation.simps)
               (simp add: start loadNavigation_try_def loadNavigation_turn_def
                  loadNavigation_arrival_def)
        qed
      qed
    qed
  qed
qed

lemma loadContent_turns:
  "loadContent env p l s =
     (case loadContent_start env p l s of
        (None, s') \<Rightarrow> s'
      | (Some awaited, s') \<Rightarrow> loadContent_arrival env awaited s')"
proof -
  let ?lang = "if truthy l then l else currentLanguage s"
  let ?P = "or_else p defaultPage"
  let ?url = "''pages/'' @ str ?lang @ ''/'' @ fileName ?P"
  show ?thesis
  proof (cases "isExternalURL (Some ?P)")
    case True
    then show ?thesis
      by (simp add: loadContent_def loadContent_start_def Let_def)
  next
    case False
    show ?thesis
    proof (cases "truthy (cache_pages s (str ?lang @ ''-'' @ ?P))")
      case True
      then obtain c where "cache_pages s (str ?lang @ ''-'' @ ?P) = Some c"
        by (auto simp: truthy_def split: option.splits)
      with True False show ?thesis
        by (simp add: loadContent_def loadContent_try_def loadContent_start_def Let_def)
    next
      case uncached: False
      have start: "loadContent_start env p l s =
                     (Some (?P, ?lang), s\<lparr>fetched := fetched s @ [?url]\<rparr>)"
        using False uncached by (simp add: loadContent_start_def Let_def)
      show ?thesis
      proof (cases "fetch env ?url")
        case None
        with False uncached show ?thesis
          by (simp add: start loadContent_def loadContent_try_def loadContent_arrival_def Let_def)
      next
        case (Some r)
        show ?thesis
        proof (cases "ok r")
          case not_ok: False
          with False uncached Some show ?thesis
            by (simp add: start loadContent_def loadContent_try_def loadContent_arrival_def
                  Let_def)
        next
          case True
          show ?thesis
          proof (cases "if split_pop (fileName ?P) = ''md''
                        then (case marked env of Some parse \<Rightarrow> parse (body r)
                              | None \<Rightarrow> Some (body r))
                        else Some (body r)")
            case None
            with False uncached Some True show ?thesis
              by (simp add: start loadContent_def loadContent_try_def loadContent_arrival_def
                    Let_def)
          next
            case processed: (Some c)
            with False uncached Some True show ?thesis
              by (simp add: start loadContent_def loadContent_try_def loadContent_arrival_def
                    Let_def)
          qed
        qed
      qed
    qed
  qed
qed

text \<open>
  A language switch whose navigation request fails, on the small site: the page is
  requested before the navigation of the default language is, and the page, which
  arrives first, is loaded without a log entry.
\<close>

lemma setLanguage_requests_in_order:
  "fetched (setLanguage site (Some ''en'')
             (startup\<lparr>currentLanguage := Some ''si'', currentPage := Some ''about''\<rparr>)) =
     [''static/lang/en.json'', ''pages/en/about.md'', ''static/lang/si.json''] \<and>
   console (setLanguage site (Some ''en'')
             (startup\<lparr>currentLanguage := Some ''si'', currentPage := Some ''about''\<rparr>)) =
     [(Log, ''Loading...''), (Error, ''Failed to load navigation for en:''),
      (Warn, ''Falling back to si''), (Log, ''Loading complete'')]"
  by (simp add: setLanguage_def validateLanguage_def supportedLanguages_def Let_def startup_def
        site_def loadNavigation_start_def loadContent_start_def loadNavigation_turn_def
        loadNavigation_arrival_def loadContent_arrival_def log_def str_def truthy_def or_else_def
        isExternalURL_def startsWith_def fileName_def split_pop_def defaultLanguage_def
        defaultPage_def updateLanguageUI_def updateURL_def renderContent_def)

section \<open>Language switch\<close>

text \<open>
  C8. \<open>setLanguage\<close> with an argument that is not a supported language, or that is the
  current language, returns the state it was given: current language, stored preference,
  caches, current page, history and fetch log are all as before.
\<close>

theorem setLanguage_noop:
  assumes "N \<notin> Some ` set supportedLanguages \<or> N = currentLanguage s"
  shows "setLanguage env N s = s"
  using assms
  by (auto simp: setLanguage_def validateLanguage_def split: option.splits)

theorem setLanguage_noop_witness:
  "Some ''fr'' \<notin> Some ` set supportedLanguages \<and>
   setLanguage site (Some ''fr'') startup = startup \<and>
   setLanguage site None startup = startup \<and>
   Some ''en'' = currentLanguage (startup\<lparr>currentLanguage := Some ''en''\<rparr>) \<and>
   setLanguage site (Some ''en'') (startup\<lparr>currentLanguage := Some ''en''\<rparr>) =
     startup\<lparr>currentLanguage := Some ''en''\<rparr>"
  using setLanguage_noop [of "Some ''fr''" startup site]
    setLanguage_noop [of None startup site]
    setLanguage_noop [of "Some ''en''" "startup\<lparr>currentLanguage := Some ''en''\<rparr>" site]
  by (simp add: supportedLanguages_def)

end
